theory Spec2Isabelle
  imports Main "HOL-Library.Word"
begin

unbundle bit_operations_syntax

section \<open>The Asahi DRM user API: include/uapi/drm/asahi_drm.h\<close>

text \<open>
  The header declares the boundary between the userspace GPU driver and the kernel
  driver: numeric constants, enumerations, the argument structure of each ioctl and
  the render command buffer. It holds no function bodies. Its declarations are
  embedded as data: an enumeration is a datatype with the value C gives each
  enumerator, a macro constant is a definition, and a structure is the list of its
  fields (name and C type) in declaration order, from which layout is computed.
\<close>

subsection \<open>C types and structure layout\<close>

type_synonym u32 = "32 word"
type_synonym u64 = "64 word"

text \<open>\<open>__u32\<close>, \<open>__u64\<close>, a fixed-length array and a nested structure.\<close>

datatype ctype = C_u32 | C_u64 | C_array ctype nat | C_struct "(string \<times> ctype) list"

type_synonym cfield = "string \<times> ctype"

text \<open>
  Natural alignment, as on the 64-bit ARM targets this driver is built for: a scalar
  is aligned to its size, an aggregate to its most aligned member.
\<close>

fun alignof :: "ctype \<Rightarrow> nat" and alignof_fields :: "cfield list \<Rightarrow> nat" where
  "alignof C_u32 = 4"
| "alignof C_u64 = 8"
| "alignof (C_array t n) = alignof t"
| "alignof (C_struct fs) = alignof_fields fs"
| "alignof_fields [] = 1"
| "alignof_fields (f # fs) = max (alignof (snd f)) (alignof_fields fs)"

definition align_up :: "nat \<Rightarrow> nat \<Rightarrow> nat" where
  "align_up n a = ((n + a - 1) div a) * a"

text \<open>
  \<open>end_offset off fs\<close> is the offset just past the last of the fields \<open>fs\<close> when they
  are laid out from offset \<open>off\<close>, each at the next multiple of its alignment. The size
  of a structure is that offset rounded up to the structure's alignment.
\<close>

fun sizeof :: "ctype \<Rightarrow> nat" and end_offset :: "nat \<Rightarrow> cfield list \<Rightarrow> nat" where
  "sizeof C_u32 = 4"
| "sizeof C_u64 = 8"
| "sizeof (C_array t n) = n * sizeof t"
| "sizeof (C_struct fs) = align_up (end_offset 0 fs) (alignof_fields fs)"
| "end_offset off [] = off"
| "end_offset off (f # fs) = end_offset (align_up off (alignof (snd f)) + sizeof (snd f)) fs"

text \<open>The offset of a named field, laying the fields out from \<open>off\<close>.\<close>

fun offset_from :: "nat \<Rightarrow> cfield list \<Rightarrow> string \<Rightarrow> nat option" where
  "offset_from off [] n = None"
| "offset_from off (f # fs) n =
     (let a = align_up off (alignof (snd f))
      in if fst f = n then Some a else offset_from (a + sizeof (snd f)) fs n)"

definition offsetof :: "cfield list \<Rightarrow> string \<Rightarrow> nat option" where
  "offsetof fs n = offset_from 0 fs n"

definition field_names :: "cfield list \<Rightarrow> string list" where
  "field_names fs = map fst fs"

definition field_type :: "cfield list \<Rightarrow> string \<Rightarrow> ctype option" where
  "field_type fs n = map_of fs n"

text \<open>The field declared right after the field \<open>n\<close>, if any.\<close>

fun next_field :: "cfield list \<Rightarrow> string \<Rightarrow> cfield option" where
  "next_field [] n = None"
| "next_field [f] n = None"
| "next_field (f # g # fs) n = (if fst f = n then Some g else next_field (g # fs) n)"

text \<open>C numbers the enumerators of an \<open>enum\<close> without initialisers 0, 1, 2, ... in
  declaration order: the value of an enumerator is its position in the declaration.\<close>

fun enum_position :: "'a list \<Rightarrow> 'a \<Rightarrow> nat" where
  "enum_position [] x = 0"
| "enum_position (y # ys) x = (if x = y then 0 else Suc (enum_position ys x))"

text \<open>The usual C idioms on a flags word: \<open>w | f\<close>, \<open>w & ~f\<close>, \<open>(w & f) != 0\<close>.\<close>

definition flag_set :: "'a::len word \<Rightarrow> 'a word \<Rightarrow> 'a word" where
  "flag_set w f = w OR f"

definition flag_clear :: "'a::len word \<Rightarrow> 'a word \<Rightarrow> 'a word" where
  "flag_clear w f = w AND NOT f"

definition flag_test :: "'a::len word \<Rightarrow> 'a word \<Rightarrow> bool" where
  "flag_test w f = (w AND f \<noteq> 0)"

subsection \<open>Version and ioctl numbers\<close>

definition DRM_ASAHI_UNSTABLE_UABI_VERSION :: nat where
  "DRM_ASAHI_UNSTABLE_UABI_VERSION = 4"

definition DRM_ASAHI_GET_PARAM :: nat where "DRM_ASAHI_GET_PARAM = 0x00"
definition DRM_ASAHI_VM_CREATE :: nat where "DRM_ASAHI_VM_CREATE = 0x01"
definition DRM_ASAHI_VM_DESTROY :: nat where "DRM_ASAHI_VM_DESTROY = 0x02"
definition DRM_ASAHI_GEM_CREATE :: nat where "DRM_ASAHI_GEM_CREATE = 0x03"
definition DRM_ASAHI_GEM_MMAP_OFFSET :: nat where "DRM_ASAHI_GEM_MMAP_OFFSET = 0x04"
definition DRM_ASAHI_GEM_BIND :: nat where "DRM_ASAHI_GEM_BIND = 0x05"
definition DRM_ASAHI_QUEUE_CREATE :: nat where "DRM_ASAHI_QUEUE_CREATE = 0x06"
definition DRM_ASAHI_QUEUE_DESTROY :: nat where "DRM_ASAHI_QUEUE_DESTROY = 0x07"
definition DRM_ASAHI_SUBMIT :: nat where "DRM_ASAHI_SUBMIT = 0x08"

subsection \<open>Parameters\<close>

datatype drm_asahi_param =
    DRM_ASAHI_PARAM_UNSTABLE_UABI_VERSION
  | DRM_ASAHI_PARAM_GPU_GENERATION
  | DRM_ASAHI_PARAM_GPU_VARIANT
  | DRM_ASAHI_PARAM_GPU_REVISION
  | DRM_ASAHI_PARAM_CHIP_ID
  | DRM_ASAHI_PARAM_FEAT_COMPAT
  | DRM_ASAHI_PARAM_FEAT_INCOMPAT
  | DRM_ASAHI_PARAM_VM_PAGE_SIZE
  | DRM_ASAHI_PARAM_VM_USER_START
  | DRM_ASAHI_PARAM_VM_USER_END
  | DRM_ASAHI_PARAM_VM_SHADER_START
  | DRM_ASAHI_PARAM_VM_SHADER_END

text \<open>The enumerators of \<open>enum drm_asahi_param\<close> in declaration order; none has an
  initialiser.\<close>

definition drm_asahi_param_decl :: "drm_asahi_param list" where
  "drm_asahi_param_decl =
    [DRM_ASAHI_PARAM_UNSTABLE_UABI_VERSION,
     DRM_ASAHI_PARAM_GPU_GENERATION,
     DRM_ASAHI_PARAM_GPU_VARIANT,
     DRM_ASAHI_PARAM_GPU_REVISION,
     DRM_ASAHI_PARAM_CHIP_ID,
     DRM_ASAHI_PARAM_FEAT_COMPAT,
     DRM_ASAHI_PARAM_FEAT_INCOMPAT,
     DRM_ASAHI_PARAM_VM_PAGE_SIZE,
     DRM_ASAHI_PARAM_VM_USER_START,
     DRM_ASAHI_PARAM_VM_USER_END,
     DRM_ASAHI_PARAM_VM_SHADER_START,
     DRM_ASAHI_PARAM_VM_SHADER_END]"

definition drm_asahi_param_val :: "drm_asahi_param \<Rightarrow> nat" where
  "drm_asahi_param_val p = enum_position drm_asahi_param_decl p"

definition DRM_ASAHI_FEAT_MANDATORY_ZS_COMPRESSION :: u64 where
  "DRM_ASAHI_FEAT_MANDATORY_ZS_COMPRESSION = push_bit 0 1"

subsection \<open>Argument structures\<close>

definition struct_drm_asahi_get_param :: "cfield list" where
  "struct_drm_asahi_get_param =
    [(''param'', C_u32), (''pad'', C_u32), (''value'', C_u64)]"

definition struct_drm_asahi_vm_create :: "cfield list" where
  "struct_drm_asahi_vm_create = [(''vm_id'', C_u32), (''pad'', C_u32)]"

definition struct_drm_asahi_vm_destroy :: "cfield list" where
  "struct_drm_asahi_vm_destroy = [(''vm_id'', C_u32), (''pad'', C_u32)]"

definition ASAHI_GEM_WRITEBACK :: u32 where
  "ASAHI_GEM_WRITEBACK = push_bit 0 1"

definition struct_drm_asahi_gem_create :: "cfield list" where
  "struct_drm_asahi_gem_create =
    [(''size'', C_u64), (''flags'', C_u32), (''handle'', C_u32)]"

definition struct_drm_asahi_gem_mmap_offset :: "cfield list" where
  "struct_drm_asahi_gem_mmap_offset =
    [(''handle'', C_u32), (''flags'', C_u32), (''offset'', C_u64)]"

definition ASAHI_BIND_READ :: u32 where
  "ASAHI_BIND_READ = push_bit 0 1"

definition ASAHI_BIND_WRITE :: u32 where
  "ASAHI_BIND_WRITE = push_bit 1 1"

definition struct_drm_asahi_gem_bind :: "cfield list" where
  "struct_drm_asahi_gem_bind =
    [(''handle'', C_u32), (''vm_id'', C_u32), (''offset'', C_u64), (''range'', C_u64),
     (''addr'', C_u64), (''flags'', C_u32)]"

datatype drm_asahi_queue_type = DRM_ASAHI_QUEUE_RENDER | DRM_ASAHI_QUEUE_COMPUTE

fun drm_asahi_queue_type_val :: "drm_asahi_queue_type \<Rightarrow> nat" where
  "drm_asahi_queue_type_val DRM_ASAHI_QUEUE_RENDER = 0"
| "drm_asahi_queue_type_val DRM_ASAHI_QUEUE_COMPUTE = 1"

definition struct_drm_asahi_queue_create :: "cfield list" where
  "struct_drm_asahi_queue_create =
    [(''vm_id'', C_u32), (''queue_type'', C_u32), (''priority'', C_u32), (''flags'', C_u32),
     (''queue_id'', C_u32)]"

definition struct_drm_asahi_queue_destroy :: "cfield list" where
  "struct_drm_asahi_queue_destroy = [(''queue_id'', C_u32)]"

datatype drm_asahi_cmd_type = DRM_ASAHI_CMD_RENDER | DRM_ASAHI_CMD_BLIT | DRM_ASAHI_CMD_COMPUTE

fun drm_asahi_cmd_type_val :: "drm_asahi_cmd_type \<Rightarrow> nat" where
  "drm_asahi_cmd_type_val DRM_ASAHI_CMD_RENDER = 0"
| "drm_asahi_cmd_type_val DRM_ASAHI_CMD_BLIT = 1"
| "drm_asahi_cmd_type_val DRM_ASAHI_CMD_COMPUTE = 2"

definition struct_drm_asahi_submit :: "cfield list" where
  "struct_drm_asahi_submit =
    [(''queue_id'', C_u32), (''cmd_type'', C_u32), (''cmd_buffer'', C_u64), (''flags'', C_u32),
     (''in_sync_count'', C_u32), (''in_syncs'', C_u64), (''out_sync'', C_u32)]"

subsection \<open>The render command buffer\<close>

definition ASAHI_MAX_ATTACHMENTS :: nat where
  "ASAHI_MAX_ATTACHMENTS = 16"

definition ASAHI_ATTACHMENT_C :: u32 where "ASAHI_ATTACHMENT_C = 0"
definition ASAHI_ATTACHMENT_Z :: u32 where "ASAHI_ATTACHMENT_Z = 1"
definition ASAHI_ATTACHMENT_S :: u32 where "ASAHI_ATTACHMENT_S = 2"

definition struct_drm_asahi_attachment :: "cfield list" where
  "struct_drm_asahi_attachment =
    [(''type'', C_u32), (''size'', C_u32), (''pointer'', C_u64)]"

definition ASAHI_CMDBUF_NO_CLEAR_PIPELINE_TEXTURES :: u64 where
  "ASAHI_CMDBUF_NO_CLEAR_PIPELINE_TEXTURES = push_bit 0 1"

definition ASAHI_CMDBUF_SET_WHEN_RELOADING_Z_OR_S :: u64 where
  "ASAHI_CMDBUF_SET_WHEN_RELOADING_Z_OR_S = push_bit 1 1"

definition ASAHI_CMDBUF_MEMORYLESS_RTS_USED :: u64 where
  "ASAHI_CMDBUF_MEMORYLESS_RTS_USED = push_bit 2 1"

definition ASAHI_CMDBUF_PROCESS_EMPTY_TILES :: u64 where
  "ASAHI_CMDBUF_PROCESS_EMPTY_TILES = push_bit 3 1"

definition struct_drm_asahi_cmd_render :: "cfield list" where
  "struct_drm_asahi_cmd_render =
    [(''flags'', C_u64),
     (''encoder_ptr'', C_u64),
     (''depth_buffer_1'', C_u64),
     (''depth_buffer_2'', C_u64),
     (''depth_buffer_3'', C_u64),
     (''depth_meta_buffer_1'', C_u64),
     (''depth_meta_buffer_2'', C_u64),
     (''depth_meta_buffer_3'', C_u64),
     (''stencil_buffer_1'', C_u64),
     (''stencil_buffer_2'', C_u64),
     (''stencil_buffer_3'', C_u64),
     (''stencil_meta_buffer_1'', C_u64),
     (''stencil_meta_buffer_2'', C_u64),
     (''stencil_meta_buffer_3'', C_u64),
     (''scissor_array'', C_u64),
     (''depth_bias_array'', C_u64),
     (''visibility_result_buffer'', C_u64),
     (''zls_ctrl'', C_u64),
     (''ppp_multisamplectl'', C_u64),
     (''ppp_ctrl'', C_u32),
     (''fb_width'', C_u32),
     (''fb_height'', C_u32),
     (''utile_width'', C_u32),
     (''utile_height'', C_u32),
     (''samples'', C_u32),
     (''layers'', C_u32),
     (''encoder_id'', C_u32),
     (''cmd_ta_id'', C_u32),
     (''cmd_3d_id'', C_u32),
     (''iogpu_unk_49'', C_u32),
     (''iogpu_unk_212'', C_u32),
     (''iogpu_unk_214'', C_u32),
     (''merge_upper_x'', C_u32),
     (''merge_upper_y'', C_u32),
     (''load_pipeline'', C_u32),
     (''load_pipeline_bind'', C_u32),
     (''store_pipeline'', C_u32),
     (''store_pipeline_bind'', C_u32),
     (''partial_reload_pipeline'', C_u32),
     (''partial_reload_pipeline_bind'', C_u32),
     (''partial_store_pipeline'', C_u32),
     (''partial_store_pipeline_bind'', C_u32),
     (''depth_dimensions'', C_u32),
     (''isp_bgobjdepth'', C_u32),
     (''isp_bgobjvals'', C_u32),
     (''attachments'', C_array (C_struct struct_drm_asahi_attachment) ASAHI_MAX_ATTACHMENTS),
     (''attachment_count'', C_u32)]"

subsection \<open>The ioctl table\<close>

text \<open>
  The anonymous enumeration at the end of the header gives each ioctl its request code:
  \<open>DRM_IOWR\<close> or \<open>DRM_IOW\<close> of \<open>DRM_COMMAND_BASE\<close> plus the operation's number, and the
  argument structure. The two macros and the base are declared in \<open>drm.h\<close>; here an
  entry is kept as its three parts: the direction macro, the number added to the base,
  and the structure.
\<close>

datatype drm_ioctl_asahi =
    DRM_IOCTL_ASAHI_GET_PARAM
  | DRM_IOCTL_ASAHI_VM_CREATE
  | DRM_IOCTL_ASAHI_VM_DESTROY
  | DRM_IOCTL_ASAHI_GEM_CREATE
  | DRM_IOCTL_ASAHI_GEM_MMAP_OFFSET
  | DRM_IOCTL_ASAHI_GEM_BIND
  | DRM_IOCTL_ASAHI_QUEUE_CREATE
  | DRM_IOCTL_ASAHI_QUEUE_DESTROY
  | DRM_IOCTL_ASAHI_SUBMIT

definition drm_ioctl_asahi_decl :: "drm_ioctl_asahi list" where
  "drm_ioctl_asahi_decl =
    [DRM_IOCTL_ASAHI_GET_PARAM, DRM_IOCTL_ASAHI_VM_CREATE, DRM_IOCTL_ASAHI_VM_DESTROY,
     DRM_IOCTL_ASAHI_GEM_CREATE, DRM_IOCTL_ASAHI_GEM_MMAP_OFFSET, DRM_IOCTL_ASAHI_GEM_BIND,
     DRM_IOCTL_ASAHI_QUEUE_CREATE, DRM_IOCTL_ASAHI_QUEUE_DESTROY, DRM_IOCTL_ASAHI_SUBMIT]"

datatype drm_ioc_dir = DRM_IOW | DRM_IOWR

fun ioctl_dir :: "drm_ioctl_asahi \<Rightarrow> drm_ioc_dir" where
  "ioctl_dir DRM_IOCTL_ASAHI_GET_PARAM = DRM_IOWR"
| "ioctl_dir DRM_IOCTL_ASAHI_VM_CREATE = DRM_IOWR"
| "ioctl_dir DRM_IOCTL_ASAHI_VM_DESTROY = DRM_IOW"
| "ioctl_dir DRM_IOCTL_ASAHI_GEM_CREATE = DRM_IOWR"
| "ioctl_dir DRM_IOCTL_ASAHI_GEM_MMAP_OFFSET = DRM_IOWR"
| "ioctl_dir DRM_IOCTL_ASAHI_GEM_BIND = DRM_IOW"
| "ioctl_dir DRM_IOCTL_ASAHI_QUEUE_CREATE = DRM_IOWR"
| "ioctl_dir DRM_IOCTL_ASAHI_QUEUE_DESTROY = DRM_IOW"
| "ioctl_dir DRM_IOCTL_ASAHI_SUBMIT = DRM_IOW"

fun ioctl_nr :: "drm_ioctl_asahi \<Rightarrow> nat" where
  "ioctl_nr DRM_IOCTL_ASAHI_GET_PARAM = DRM_ASAHI_GET_PARAM"
| "ioctl_nr DRM_IOCTL_ASAHI_VM_CREATE = DRM_ASAHI_VM_CREATE"
| "ioctl_nr DRM_IOCTL_ASAHI_VM_DESTROY = DRM_ASAHI_VM_DESTROY"
| "ioctl_nr DRM_IOCTL_ASAHI_GEM_CREATE = DRM_ASAHI_GEM_CREATE"
| "ioctl_nr DRM_IOCTL_ASAHI_GEM_MMAP_OFFSET = DRM_ASAHI_GEM_MMAP_OFFSET"
| "ioctl_nr DRM_IOCTL_ASAHI_GEM_BIND = DRM_ASAHI_GEM_BIND"
| "ioctl_nr DRM_IOCTL_ASAHI_QUEUE_CREATE = DRM_ASAHI_QUEUE_CREATE"
| "ioctl_nr DRM_IOCTL_ASAHI_QUEUE_DESTROY = DRM_ASAHI_QUEUE_DESTROY"
| "ioctl_nr DRM_IOCTL_ASAHI_SUBMIT = DRM_ASAHI_SUBMIT"

fun ioctl_arg :: "drm_ioctl_asahi \<Rightarrow> cfield list" where
  "ioctl_arg DRM_IOCTL_ASAHI_GET_PARAM = struct_drm_asahi_get_param"
| "ioctl_arg DRM_IOCTL_ASAHI_VM_CREATE = struct_drm_asahi_vm_create"
| "ioctl_arg DRM_IOCTL_ASAHI_VM_DESTROY = struct_drm_asahi_vm_destroy"
| "ioctl_arg DRM_IOCTL_ASAHI_GEM_CREATE = struct_drm_asahi_gem_create"
| "ioctl_arg DRM_IOCTL_ASAHI_GEM_MMAP_OFFSET = struct_drm_asahi_gem_mmap_offset"
| "ioctl_arg DRM_IOCTL_ASAHI_GEM_BIND = struct_drm_asahi_gem_bind"
| "ioctl_arg DRM_IOCTL_ASAHI_QUEUE_CREATE = struct_drm_asahi_queue_create"
| "ioctl_arg DRM_IOCTL_ASAHI_QUEUE_DESTROY = struct_drm_asahi_queue_destroy"
| "ioctl_arg DRM_IOCTL_ASAHI_SUBMIT = struct_drm_asahi_submit"

subsection \<open>Reserved fields\<close>

text \<open>
  The fields of each argument structure whose documentation comment in the header
  reads \<open>MBZ\<close> (must be zero) or \<open>Must be zero\<close>.
\<close>

fun ioctl_mbz :: "drm_ioctl_asahi \<Rightarrow> string list" where
  "ioctl_mbz DRM_IOCTL_ASAHI_GET_PARAM = [''pad'']"
| "ioctl_mbz DRM_IOCTL_ASAHI_VM_CREATE = [''pad'']"
| "ioctl_mbz DRM_IOCTL_ASAHI_VM_DESTROY = [''pad'']"
| "ioctl_mbz DRM_IOCTL_ASAHI_GEM_CREATE = []"
| "ioctl_mbz DRM_IOCTL_ASAHI_GEM_MMAP_OFFSET = [''flags'']"
| "ioctl_mbz DRM_IOCTL_ASAHI_GEM_BIND = []"
| "ioctl_mbz DRM_IOCTL_ASAHI_QUEUE_CREATE = [''flags'']"
| "ioctl_mbz DRM_IOCTL_ASAHI_QUEUE_DESTROY = []"
| "ioctl_mbz DRM_IOCTL_ASAHI_SUBMIT = [''flags'']"

text \<open>
  An argument block as the caller fills it: the value of each field, by name. It
  honours the header's contract when every must-be-zero field holds zero.
\<close>

type_synonym carg = "string \<Rightarrow> nat"

definition mbz_ok :: "drm_ioctl_asahi \<Rightarrow> carg \<Rightarrow> bool" where
  "mbz_ok op v = list_all (\<lambda>f. v f = 0) (ioctl_mbz op)"

subsection \<open>Names\<close>

fun starts_with :: "string \<Rightarrow> string \<Rightarrow> bool" where
  "starts_with [] s = True"
| "starts_with (c # cs) [] = False"
| "starts_with (c # cs) (d # ds) = (c = d \<and> starts_with cs ds)"

definition ends_with :: "string \<Rightarrow> string \<Rightarrow> bool" where
  "ends_with p s = starts_with (rev p) (rev s)"

text \<open>The four control flags of the render command buffer, as the header lists them.\<close>

definition asahi_cmdbuf_flags :: "u64 list" where
  "asahi_cmdbuf_flags =
    [ASAHI_CMDBUF_NO_CLEAR_PIPELINE_TEXTURES, ASAHI_CMDBUF_SET_WHEN_RELOADING_Z_OR_S,
     ASAHI_CMDBUF_MEMORYLESS_RTS_USED, ASAHI_CMDBUF_PROCESS_EMPTY_TILES]"

section \<open>The specification's tables, for comparison with the header\<close>

text \<open>
  The operation table of the specification (its section on external interfaces), each
  entry written with the names the header gives the fields: the request fields, then
  the response fields. The table's "in-sync handles" is the array the header passes as
  \<open>in_sync_count\<close> and \<open>in_syncs\<close>.
\<close>

fun spec_table_request :: "drm_ioctl_asahi \<Rightarrow> string list" where
  "spec_table_request DRM_IOCTL_ASAHI_GET_PARAM = [''param'']"
| "spec_table_request DRM_IOCTL_ASAHI_VM_CREATE = []"
| "spec_table_request DRM_IOCTL_ASAHI_VM_DESTROY = [''vm_id'']"
| "spec_table_request DRM_IOCTL_ASAHI_GEM_CREATE = [''size'', ''flags'']"
| "spec_table_request DRM_IOCTL_ASAHI_GEM_MMAP_OFFSET = [''handle'', ''flags'']"
| "spec_table_request DRM_IOCTL_ASAHI_GEM_BIND =
     [''handle'', ''vm_id'', ''offset'', ''range'', ''addr'', ''flags'']"
| "spec_table_request DRM_IOCTL_ASAHI_QUEUE_CREATE = [''vm_id'', ''queue_type'', ''priority'']"
| "spec_table_request DRM_IOCTL_ASAHI_QUEUE_DESTROY = [''queue_id'']"
| "spec_table_request DRM_IOCTL_ASAHI_SUBMIT =
     [''queue_id'', ''cmd_type'', ''cmd_buffer'', ''flags'', ''in_sync_count'', ''in_syncs'',
      ''out_sync'']"

fun spec_table_response :: "drm_ioctl_asahi \<Rightarrow> string list" where
  "spec_table_response DRM_IOCTL_ASAHI_GET_PARAM = [''value'']"
| "spec_table_response DRM_IOCTL_ASAHI_VM_CREATE = [''vm_id'']"
| "spec_table_response DRM_IOCTL_ASAHI_VM_DESTROY = []"
| "spec_table_response DRM_IOCTL_ASAHI_GEM_CREATE = [''handle'']"
| "spec_table_response DRM_IOCTL_ASAHI_GEM_MMAP_OFFSET = [''offset'']"
| "spec_table_response DRM_IOCTL_ASAHI_GEM_BIND = []"
| "spec_table_response DRM_IOCTL_ASAHI_QUEUE_CREATE = [''queue_id'']"
| "spec_table_response DRM_IOCTL_ASAHI_QUEUE_DESTROY = []"
| "spec_table_response DRM_IOCTL_ASAHI_SUBMIT = []"

definition spec_table_fields :: "drm_ioctl_asahi \<Rightarrow> string list" where
  "spec_table_fields op = spec_table_request op @ spec_table_response op"

text \<open>Every field the table names is a field of the operation's structure.\<close>

definition table_fields_declared :: "drm_ioctl_asahi \<Rightarrow> bool" where
  "table_fields_declared op =
     list_all (\<lambda>f. f \<in> set (field_names (ioctl_arg op))) (spec_table_fields op)"

text \<open>The fields of the operation's structure that the table does not name.\<close>

definition unlisted_fields :: "drm_ioctl_asahi \<Rightarrow> string list" where
  "unlisted_fields op =
     filter (\<lambda>f. f \<notin> set (spec_table_fields op)) (field_names (ioctl_arg op))"

text \<open>
  The fields of the render command buffer that the specification enumerates (its
  section on the command buffer encoder): the control flags, the frame and tile
  dimensions, the four pipelines with their bind words, the depth and stencil buffers
  and metadata buffers with three slots each, and the attachments with their count.
\<close>

definition spec_listed_render_fields :: "string list" where
  "spec_listed_render_fields =
    [''flags'',
     ''fb_width'', ''fb_height'', ''utile_width'', ''utile_height'', ''samples'', ''layers'',
     ''load_pipeline'', ''load_pipeline_bind'', ''store_pipeline'', ''store_pipeline_bind'',
     ''partial_reload_pipeline'', ''partial_reload_pipeline_bind'',
     ''partial_store_pipeline'', ''partial_store_pipeline_bind'',
     ''depth_buffer_1'', ''depth_buffer_2'', ''depth_buffer_3'',
     ''depth_meta_buffer_1'', ''depth_meta_buffer_2'', ''depth_meta_buffer_3'',
     ''stencil_buffer_1'', ''stencil_buffer_2'', ''stencil_buffer_3'',
     ''stencil_meta_buffer_1'', ''stencil_meta_buffer_2'', ''stencil_meta_buffer_3'',
     ''attachments'', ''attachment_count'']"

text \<open>The structure a reader would declare from the enumerated fields alone: the
  header's fields in the header's order and with the header's types, the others left
  out.\<close>

definition spec_listed_render_struct :: "cfield list" where
  "spec_listed_render_struct =
     filter (\<lambda>f. fst f \<in> set spec_listed_render_fields) struct_drm_asahi_cmd_render"

text \<open>The fields of the header's structure that the specification does not enumerate.\<close>

definition unlisted_render_fields :: "string list" where
  "unlisted_render_fields =
     filter (\<lambda>n. n \<notin> set spec_listed_render_fields) (field_names struct_drm_asahi_cmd_render)"

section \<open>The operations behind the interface\<close>

text \<open>
  The header declares what crosses the interface; the kernel functions that serve the
  ioctls are not among these sources. The operations that the properties below need
  are modelled from the specification. The argument structures they take are the
  header's, as records.
\<close>

text \<open>
  Modelled from the spec: the error taxonomy of its section on error handling; the
  header only says that a call returns a negative error code.
\<close>

datatype error =
    InvalidArgument | InvalidSize | OutOfBounds | AddressOutOfRange | RangeConflict
  | UnknownVm | UnknownQueue | UnknownHandle | InvalidPriority | CommandTypeMismatch
  | UnboundAddress | TooManyAttachments | VmInUse | QueueBusy | UnknownParameter

text \<open>\<open>struct drm_asahi_gem_bind\<close>; its field \<open>range\<close> is \<open>range_f\<close> here.\<close>

record drm_asahi_gem_bind =
  handle :: u32
  vm_id :: u32
  offset :: u64
  range_f :: u64
  addr :: u64
  flags :: u32

text \<open>\<open>struct drm_asahi_attachment\<close>; its fields \<open>type\<close> and \<open>size\<close> are \<open>type_f\<close>
  and \<open>size_f\<close> here.\<close>

record drm_asahi_attachment =
  type_f :: u32
  size_f :: u32
  pointer :: u64

text \<open>\<open>struct drm_asahi_cmd_render\<close>; the array \<open>attachments\<close> is a list.\<close>

record drm_asahi_cmd_render =
  flags :: u64
  encoder_ptr :: u64
  depth_buffer_1 :: u64
  depth_buffer_2 :: u64
  depth_buffer_3 :: u64
  depth_meta_buffer_1 :: u64
  depth_meta_buffer_2 :: u64
  depth_meta_buffer_3 :: u64
  stencil_buffer_1 :: u64
  stencil_buffer_2 :: u64
  stencil_buffer_3 :: u64
  stencil_meta_buffer_1 :: u64
  stencil_meta_buffer_2 :: u64
  stencil_meta_buffer_3 :: u64
  scissor_array :: u64
  depth_bias_array :: u64
  visibility_result_buffer :: u64
  zls_ctrl :: u64
  ppp_multisamplectl :: u64
  ppp_ctrl :: u32
  fb_width :: u32
  fb_height :: u32
  utile_width :: u32
  utile_height :: u32
  samples :: u32
  layers :: u32
  encoder_id :: u32
  cmd_ta_id :: u32
  cmd_3d_id :: u32
  iogpu_unk_49 :: u32
  iogpu_unk_212 :: u32
  iogpu_unk_214 :: u32
  merge_upper_x :: u32
  merge_upper_y :: u32
  load_pipeline :: u32
  load_pipeline_bind :: u32
  store_pipeline :: u32
  store_pipeline_bind :: u32
  partial_reload_pipeline :: u32
  partial_reload_pipeline_bind :: u32
  partial_store_pipeline :: u32
  partial_store_pipeline_bind :: u32
  depth_dimensions :: u32
  isp_bgobjdepth :: u32
  isp_bgobjvals :: u32
  attachments :: "drm_asahi_attachment list"
  attachment_count :: u32

subsection \<open>State\<close>

text \<open>
  Modelled from the spec: the device parameters of its data model (DeviceParams), one
  value for each parameter the header enumerates. The kernel code that fills them is
  not among the sources.
\<close>

record device_params =
  unstable_uabi_version :: u64
  gpu_generation :: u64
  gpu_variant :: u64
  gpu_revision :: u64
  chip_id :: u64
  feat_compat :: u64
  feat_incompat :: u64
  vm_page_size :: u64
  vm_user_start :: u64
  vm_user_end :: u64
  vm_shader_start :: u64
  vm_shader_end :: u64

text \<open>
  Modelled from the spec: a memory object of its data model (MemoryObject), with the
  size fixed at creation and the creation flags.
\<close>

record mem_object =
  obj_size :: u64
  obj_flags :: u32

text \<open>
  Modelled from the spec: the state behind the interface. The handle table of memory
  objects, and for each live VM its Binding Table: the bindings made so far, each kept
  as the bind request that made it (object handle, VM id, object offset, length, GPU
  address, access rights), oldest first.
\<close>

record gpu_state =
  params :: device_params
  objects :: "u32 \<rightharpoonup> mem_object"
  vms :: "u32 \<rightharpoonup> drm_asahi_gem_bind list"

subsection \<open>Parameter query\<close>

text \<open>The enumerator of \<open>enum drm_asahi_param\<close> whose value is the given id, if any.\<close>

definition drm_asahi_param_of :: "u32 \<Rightarrow> drm_asahi_param option" where
  "drm_asahi_param_of i = find (\<lambda>p. drm_asahi_param_val p = unat i) drm_asahi_param_decl"

text \<open>
  Modelled from the spec: the value the device reports for a parameter; the kernel's
  parameter query is not among the sources.
\<close>

fun param_value :: "device_params \<Rightarrow> drm_asahi_param \<Rightarrow> u64" where
  "param_value d DRM_ASAHI_PARAM_UNSTABLE_UABI_VERSION = unstable_uabi_version d"
| "param_value d DRM_ASAHI_PARAM_GPU_GENERATION = gpu_generation d"
| "param_value d DRM_ASAHI_PARAM_GPU_VARIANT = gpu_variant d"
| "param_value d DRM_ASAHI_PARAM_GPU_REVISION = gpu_revision d"
| "param_value d DRM_ASAHI_PARAM_CHIP_ID = chip_id d"
| "param_value d DRM_ASAHI_PARAM_FEAT_COMPAT = feat_compat d"
| "param_value d DRM_ASAHI_PARAM_FEAT_INCOMPAT = feat_incompat d"
| "param_value d DRM_ASAHI_PARAM_VM_PAGE_SIZE = vm_page_size d"
| "param_value d DRM_ASAHI_PARAM_VM_USER_START = vm_user_start d"
| "param_value d DRM_ASAHI_PARAM_VM_USER_END = vm_user_end d"
| "param_value d DRM_ASAHI_PARAM_VM_SHADER_START = vm_shader_start d"
| "param_value d DRM_ASAHI_PARAM_VM_SHADER_END = vm_shader_end d"

text \<open>
  Modelled from the spec: \<open>get_param(id) -> value\<close> of its Parameter Query component,
  whose kernel implementation is not among the sources. The result is a 64-bit value;
  an id that is not recognised fails with \<open>UnknownParameter\<close>. The state is threaded
  through so that the absence of side effects is a statement about the result.
\<close>

definition get_param :: "gpu_state \<Rightarrow> u32 \<Rightarrow> gpu_state \<times> (error + u64)" where
  "get_param s i =
     (case drm_asahi_param_of i of
        None \<Rightarrow> (s, Inl UnknownParameter)
      | Some p \<Rightarrow> (s, Inr (param_value (params s) p)))"

subsection \<open>Binding Table\<close>

text \<open>
  Modelled from the spec: the overlap of two address ranges, which its Binding Table
  component checks and no source file defines. Two ranges, each given by its start and
  its length, overlap when some address lies in both.
\<close>

definition ranges_overlap :: "nat \<Rightarrow> nat \<Rightarrow> nat \<Rightarrow> nat \<Rightarrow> bool" where
  "ranges_overlap a1 r1 a2 r2 = (max a1 a2 < min (a1 + r1) (a2 + r2))"

definition binds_overlap :: "drm_asahi_gem_bind \<Rightarrow> drm_asahi_gem_bind \<Rightarrow> bool" where
  "binds_overlap b1 b2 =
     ranges_overlap (unat (addr b1)) (unat (range_f b1)) (unat (addr b2)) (unat (range_f b2))"

text \<open>
  Modelled from the spec: the address range of a binding must lie inside the VM's user
  region or its shader region, whose bounds are the device parameters; no source file
  defines the check. The range of length \<open>r\<close> at \<open>a\<close> lies inside the region from \<open>lo\<close>
  up to \<open>hi\<close> when it starts at or after \<open>lo\<close> and ends at or before \<open>hi\<close>.
\<close>

definition in_region :: "nat \<Rightarrow> nat \<Rightarrow> nat \<Rightarrow> nat \<Rightarrow> bool" where
  "in_region lo hi a r = (lo \<le> a \<and> a + r \<le> hi)"

definition in_vm_region :: "device_params \<Rightarrow> drm_asahi_gem_bind \<Rightarrow> bool" where
  "in_vm_region d b =
     (in_region (unat (vm_user_start d)) (unat (vm_user_end d)) (unat (addr b)) (unat (range_f b))
      \<or> in_region (unat (vm_shader_start d)) (unat (vm_shader_end d))
           (unat (addr b)) (unat (range_f b)))"

text \<open>
  Modelled from the spec: \<open>bind(handle, vm_id, offset, range, addr, flags)\<close> of its
  Binding Table component, whose kernel implementation is not among the sources. The
  handle and the VM must be live (\<open>UnknownHandle\<close>, \<open>UnknownVm\<close>); \<open>offset + range\<close> must
  not exceed the object's size (\<open>OutOfBounds\<close>); the address range must lie inside the
  VM's user or shader region (\<open>AddressOutOfRange\<close>); it must not overlap an existing
  binding of the same VM (\<open>RangeConflict\<close>). The checks run in the order the
  specification lists them. Sums of addresses and lengths are taken without
  wrap-around. On success the binding is added to the VM's table; on failure the state
  is returned as it was.
\<close>

definition bind :: "gpu_state \<Rightarrow> drm_asahi_gem_bind \<Rightarrow> gpu_state \<times> (error + unit)" where
  "bind s b =
     (case objects s (handle b) of
        None \<Rightarrow> (s, Inl UnknownHandle)
      | Some obj \<Rightarrow>
     (case vms s (vm_id b) of
        None \<Rightarrow> (s, Inl UnknownVm)
      | Some bs \<Rightarrow>
          if unat (obj_size obj) < unat (offset b) + unat (range_f b) then (s, Inl OutOfBounds)
          else if \<not> in_vm_region (params s) b then (s, Inl AddressOutOfRange)
          else if list_ex (\<lambda>e. binds_overlap e b) bs then (s, Inl RangeConflict)
          else (s\<lparr>vms := (vms s)(vm_id b \<mapsto> bs @ [b])\<rparr>, Inr ())))"

text \<open>
  A run of bind calls made one after the other, each on the state the call before it
  returned; the results of the calls are dropped.
\<close>

fun bind_all :: "gpu_state \<Rightarrow> drm_asahi_gem_bind list \<Rightarrow> gpu_state" where
  "bind_all s [] = s"
| "bind_all s (b # bs) = bind_all (fst (bind s b)) bs"

subsection \<open>Render command buffer validation\<close>

text \<open>
  Modelled from the spec: an address resolves to a binding of the submitting VM; no
  source file defines the check. The GPU address \<open>a\<close> lies in one of the bindings \<open>bs\<close>.
\<close>

definition resolves :: "drm_asahi_gem_bind list \<Rightarrow> u64 \<Rightarrow> bool" where
  "resolves bs a =
     list_ex (\<lambda>b. unat (addr b) \<le> unat a \<and> unat a < unat (addr b) + unat (range_f b)) bs"

text \<open>
  Modelled from the spec: the pointer fields of a render command buffer, which its
  section on the command buffer encoder requires to resolve to a binding when they are
  not null. They are the 64-bit GPU addresses of the header's structure, the four
  pipeline addresses (the data model requires referenced pipeline addresses to be
  bound), and the pointers of the attachments in use, the first \<open>attachment_count\<close>
  entries of the array.
\<close>

definition render_pointers :: "drm_asahi_cmd_render \<Rightarrow> u64 list" where
  "render_pointers c =
     [encoder_ptr c,
      depth_buffer_1 c, depth_buffer_2 c, depth_buffer_3 c,
      depth_meta_buffer_1 c, depth_meta_buffer_2 c, depth_meta_buffer_3 c,
      stencil_buffer_1 c, stencil_buffer_2 c, stencil_buffer_3 c,
      stencil_meta_buffer_1 c, stencil_meta_buffer_2 c, stencil_meta_buffer_3 c,
      scissor_array c, depth_bias_array c, visibility_result_buffer c]
     @ map ucast [load_pipeline c, store_pipeline c, partial_reload_pipeline c,
                  partial_store_pipeline c]
     @ map pointer (take (unat (attachment_count c)) (attachments c))"

text \<open>
  Modelled from the spec: the validation of a render command buffer against the
  Binding Table of the submitting VM, whose kernel implementation is not among the
  sources. First \<open>attachment_count\<close> must be at most \<open>ASAHI_MAX_ATTACHMENTS\<close>
  (\<open>TooManyAttachments\<close>); then every pointer field that is not null must resolve to a
  binding (\<open>UnboundAddress\<close>).
\<close>

definition validate_render ::
  "drm_asahi_gem_bind list \<Rightarrow> drm_asahi_cmd_render \<Rightarrow> error + unit" where
  "validate_render bs c =
     (if ASAHI_MAX_ATTACHMENTS < unat (attachment_count c) then Inl TooManyAttachments
      else if list_all (\<lambda>p. p = 0 \<or> resolves bs p) (render_pointers c) then Inr ()
      else Inl UnboundAddress)"

subsection \<open>Example values\<close>

text \<open>
  The values of the specification's end-to-end scenario: one VM, one object of 4096
  bytes, bound in full at address 0x100000000 for reading and writing, and a colour
  attachment at that address.
\<close>

definition example_params :: device_params where
  "example_params =
     \<lparr>unstable_uabi_version = 4, gpu_generation = 13, gpu_variant = 71, gpu_revision = 1,
      chip_id = 0x8103, feat_compat = 0, feat_incompat = 0, vm_page_size = 0x4000,
      vm_user_start = 0x100000000, vm_user_end = 0x200000000,
      vm_shader_start = 0x1000000, vm_shader_end = 0x10000000\<rparr>"

definition example_state :: gpu_state where
  "example_state =
     \<lparr>params = example_params,
      objects = [1 \<mapsto> \<lparr>obj_size = 4096, obj_flags = 0\<rparr>],
      vms = [1 \<mapsto> []]\<rparr>"

definition example_bind :: "u64 \<Rightarrow> drm_asahi_gem_bind" where
  "example_bind a =
     \<lparr>handle = 1, vm_id = 1, offset = 0, range_f = 4096, addr = a,
      flags = ASAHI_BIND_READ OR ASAHI_BIND_WRITE\<rparr>"

definition example_attachment :: drm_asahi_attachment where
  "example_attachment = \<lparr>type_f = ASAHI_ATTACHMENT_C, size_f = 4096, pointer = 0x100000000\<rparr>"

text \<open>A render command buffer with the given attachment count: every entry of the
  attachment array is the colour attachment, the first depth buffer lies in the bound
  object, and all other pointers are null.\<close>

definition example_cmd_render :: "u32 \<Rightarrow> drm_asahi_cmd_render" where
  "example_cmd_render n =
     \<lparr>flags = ASAHI_CMDBUF_PROCESS_EMPTY_TILES,
      encoder_ptr = 0,
      depth_buffer_1 = 0x100000800, depth_buffer_2 = 0, depth_buffer_3 = 0,
      depth_meta_buffer_1 = 0, depth_meta_buffer_2 = 0, depth_meta_buffer_3 = 0,
      stencil_buffer_1 = 0, stencil_buffer_2 = 0, stencil_buffer_3 = 0,
      stencil_meta_buffer_1 = 0, stencil_meta_buffer_2 = 0, stencil_meta_buffer_3 = 0,
      scissor_array = 0, depth_bias_array = 0, visibility_result_buffer = 0,
      zls_ctrl = 0, ppp_multisamplectl = 0, ppp_ctrl = 0,
      fb_width = 64, fb_height = 64, utile_width = 32, utile_height = 32,
      samples = 1, layers = 1,
      encoder_id = 0, cmd_ta_id = 0, cmd_3d_id = 0,
      iogpu_unk_49 = 0, iogpu_unk_212 = 0, iogpu_unk_214 = 0,
      merge_upper_x = 0, merge_upper_y = 0,
      load_pipeline = 0, load_pipeline_bind = 0,
      store_pipeline = 0, store_pipeline_bind = 0,
      partial_reload_pipeline = 0, partial_reload_pipeline_bind = 0,
      partial_store_pipeline = 0, partial_store_pipeline_bind = 0,
      depth_dimensions = 0, isp_bgobjdepth = 0, isp_bgobjvals = 0,
      attachments = replicate ASAHI_MAX_ATTACHMENTS example_attachment,
      attachment_count = n\<rparr>"

text \<open>A bind request of length zero at address 0, which lies in neither region.\<close>

definition example_zero_bind :: drm_asahi_gem_bind where
  "example_zero_bind =
     \<lparr>handle = 1, vm_id = 1, offset = 0, range_f = 0, addr = 0, flags = ASAHI_BIND_READ\<rparr>"

section \<open>Properties of the declarations\<close>

subsection \<open>Single-bit flags\<close>

lemma bit_push_bit_1_word:
  "bit (push_bit m (1 :: 'a::len word)) n \<longleftrightarrow> n = m \<and> m < LENGTH('a)"
  by (auto simp: bit_exp_iff)

lemma flag_test_single:
  fixes w :: "'a::len word"
  assumes f: "\<And>n. bit f n \<longleftrightarrow> n = m" and m: "m < LENGTH('a)"
  shows "flag_test w f \<longleftrightarrow> bit w m"
proof -
  have "w AND f = 0 \<longleftrightarrow> \<not> bit w m"
  proof
    assume z: "w AND f = 0"
    have "bit (w AND f) m = bit w m" by (simp add: bit_and_iff f)
    with z show "\<not> bit w m" by simp
  next
    assume "\<not> bit w m"
    then show "w AND f = 0"
      by (intro bit_word_eqI) (auto simp: bit_and_iff f)
  qed
  then show ?thesis by (auto simp: flag_test_def)
qed

lemma bit_flag_set: "bit (flag_set w f) n \<longleftrightarrow> bit w n \<or> bit f n"
  by (simp add: flag_set_def bit_or_iff)

lemma bit_flag_clear:
  fixes w :: "'a::len word"
  shows "bit (flag_clear w f) n \<longleftrightarrow> bit w n \<and> \<not> bit f n"
  by (auto simp: flag_clear_def bit_and_iff bit_not_iff dest: bit_imp_le_length)

lemma bit_ASAHI_BIND_READ: "bit ASAHI_BIND_READ n \<longleftrightarrow> n = 0"
  unfolding ASAHI_BIND_READ_def by (simp only: bit_push_bit_1_word) simp

lemma bit_ASAHI_BIND_WRITE: "bit ASAHI_BIND_WRITE n \<longleftrightarrow> n = 1"
  unfolding ASAHI_BIND_WRITE_def by (simp only: bit_push_bit_1_word) simp

lemma test_ASAHI_BIND_READ: "flag_test w ASAHI_BIND_READ \<longleftrightarrow> bit w 0"
  by (rule flag_test_single) (simp_all add: bit_ASAHI_BIND_READ)

lemma test_ASAHI_BIND_WRITE: "flag_test w ASAHI_BIND_WRITE \<longleftrightarrow> bit w 1"
  by (rule flag_test_single) (simp_all add: bit_ASAHI_BIND_WRITE)

subsection \<open>Numeric constants\<close>

text \<open>
  Claim C1. The protocol's numeric constants are: queue types Render = 0 and
  Compute = 1; command types Render = 0, Blit = 1 and Compute = 2; attachment types
  Color = 0, Depth = 1 and Stencil = 2. The bind access flags Read and Write are single
  bits, Read bit 0 and Write bit 1, and they are independent: on every 32-bit flags
  word, setting or clearing one of them leaves the test of the other as it was, and a
  flag tests as set after it is set and as clear after it is cleared.
\<close>

theorem C1_protocol_constants:
  "drm_asahi_queue_type_val DRM_ASAHI_QUEUE_RENDER = 0
   \<and> drm_asahi_queue_type_val DRM_ASAHI_QUEUE_COMPUTE = 1
   \<and> drm_asahi_cmd_type_val DRM_ASAHI_CMD_RENDER = 0
   \<and> drm_asahi_cmd_type_val DRM_ASAHI_CMD_BLIT = 1
   \<and> drm_asahi_cmd_type_val DRM_ASAHI_CMD_COMPUTE = 2
   \<and> ASAHI_ATTACHMENT_C = 0 \<and> ASAHI_ATTACHMENT_Z = 1 \<and> ASAHI_ATTACHMENT_S = 2
   \<and> ASAHI_BIND_READ = 1 \<and> ASAHI_BIND_WRITE = 2
   \<and> (\<forall>n. bit ASAHI_BIND_READ n \<longleftrightarrow> n = 0)
   \<and> (\<forall>n. bit ASAHI_BIND_WRITE n \<longleftrightarrow> n = 1)
   \<and> (\<forall>w. flag_test (flag_set w ASAHI_BIND_READ) ASAHI_BIND_READ
          \<and> flag_test (flag_set w ASAHI_BIND_WRITE) ASAHI_BIND_WRITE
          \<and> \<not> flag_test (flag_clear w ASAHI_BIND_READ) ASAHI_BIND_READ
          \<and> \<not> flag_test (flag_clear w ASAHI_BIND_WRITE) ASAHI_BIND_WRITE
          \<and> flag_test (flag_set w ASAHI_BIND_READ) ASAHI_BIND_WRITE = flag_test w ASAHI_BIND_WRITE
          \<and> flag_test (flag_clear w ASAHI_BIND_READ) ASAHI_BIND_WRITE = flag_test w ASAHI_BIND_WRITE
          \<and> flag_test (flag_set w ASAHI_BIND_WRITE) ASAHI_BIND_READ = flag_test w ASAHI_BIND_READ
          \<and> flag_test (flag_clear w ASAHI_BIND_WRITE) ASAHI_BIND_READ = flag_test w ASAHI_BIND_READ)"
proof -
  have enums: "drm_asahi_queue_type_val DRM_ASAHI_QUEUE_RENDER = 0
      \<and> drm_asahi_queue_type_val DRM_ASAHI_QUEUE_COMPUTE = 1
      \<and> drm_asahi_cmd_type_val DRM_ASAHI_CMD_RENDER = 0
      \<and> drm_asahi_cmd_type_val DRM_ASAHI_CMD_BLIT = 1
      \<and> drm_asahi_cmd_type_val DRM_ASAHI_CMD_COMPUTE = 2"
    by simp
  have att: "ASAHI_ATTACHMENT_C = 0 \<and> ASAHI_ATTACHMENT_Z = 1 \<and> ASAHI_ATTACHMENT_S = 2"
    by (simp add: ASAHI_ATTACHMENT_C_def ASAHI_ATTACHMENT_Z_def ASAHI_ATTACHMENT_S_def)
  have vals: "ASAHI_BIND_READ = 1 \<and> ASAHI_BIND_WRITE = 2"
    by (simp add: ASAHI_BIND_READ_def ASAHI_BIND_WRITE_def)
  have bits: "(\<forall>n. bit ASAHI_BIND_READ n \<longleftrightarrow> n = 0) \<and> (\<forall>n. bit ASAHI_BIND_WRITE n \<longleftrightarrow> n = 1)"
    by (simp add: bit_ASAHI_BIND_READ bit_ASAHI_BIND_WRITE)
  have indep: "flag_test (flag_set w ASAHI_BIND_READ) ASAHI_BIND_READ
          \<and> flag_test (flag_set w ASAHI_BIND_WRITE) ASAHI_BIND_WRITE
          \<and> \<not> flag_test (flag_clear w ASAHI_BIND_READ) ASAHI_BIND_READ
          \<and> \<not> flag_test (flag_clear w ASAHI_BIND_WRITE) ASAHI_BIND_WRITE
          \<and> flag_test (flag_set w ASAHI_BIND_READ) ASAHI_BIND_WRITE = flag_test w ASAHI_BIND_WRITE
          \<and> flag_test (flag_clear w ASAHI_BIND_READ) ASAHI_BIND_WRITE = flag_test w ASAHI_BIND_WRITE
          \<and> flag_test (flag_set w ASAHI_BIND_WRITE) ASAHI_BIND_READ = flag_test w ASAHI_BIND_READ
          \<and> flag_test (flag_clear w ASAHI_BIND_WRITE) ASAHI_BIND_READ = flag_test w ASAHI_BIND_READ"
    for w
    by (simp add: test_ASAHI_BIND_READ test_ASAHI_BIND_WRITE bit_flag_set bit_flag_clear
        bit_ASAHI_BIND_READ bit_ASAHI_BIND_WRITE)
  from enums att vals bits indep show ?thesis by blast
qed

lemma bit_ASAHI_CMDBUF_NO_CLEAR_PIPELINE_TEXTURES:
  "bit ASAHI_CMDBUF_NO_CLEAR_PIPELINE_TEXTURES n \<longleftrightarrow> n = 0"
  unfolding ASAHI_CMDBUF_NO_CLEAR_PIPELINE_TEXTURES_def by (simp only: bit_push_bit_1_word) simp

lemma bit_ASAHI_CMDBUF_SET_WHEN_RELOADING_Z_OR_S:
  "bit ASAHI_CMDBUF_SET_WHEN_RELOADING_Z_OR_S n \<longleftrightarrow> n = 1"
  unfolding ASAHI_CMDBUF_SET_WHEN_RELOADING_Z_OR_S_def by (simp only: bit_push_bit_1_word) simp

lemma bit_ASAHI_CMDBUF_MEMORYLESS_RTS_USED:
  "bit ASAHI_CMDBUF_MEMORYLESS_RTS_USED n \<longleftrightarrow> n = 2"
  unfolding ASAHI_CMDBUF_MEMORYLESS_RTS_USED_def by (simp only: bit_push_bit_1_word) simp

lemma bit_ASAHI_CMDBUF_PROCESS_EMPTY_TILES:
  "bit ASAHI_CMDBUF_PROCESS_EMPTY_TILES n \<longleftrightarrow> n = 3"
  unfolding ASAHI_CMDBUF_PROCESS_EMPTY_TILES_def by (simp only: bit_push_bit_1_word) simp

lemmas bit_ASAHI_CMDBUF =
  bit_ASAHI_CMDBUF_NO_CLEAR_PIPELINE_TEXTURES bit_ASAHI_CMDBUF_SET_WHEN_RELOADING_Z_OR_S
  bit_ASAHI_CMDBUF_MEMORYLESS_RTS_USED bit_ASAHI_CMDBUF_PROCESS_EMPTY_TILES

lemma test_ASAHI_CMDBUF_NO_CLEAR_PIPELINE_TEXTURES:
  "flag_test w ASAHI_CMDBUF_NO_CLEAR_PIPELINE_TEXTURES \<longleftrightarrow> bit w 0"
  by (rule flag_test_single) (simp_all add: bit_ASAHI_CMDBUF)

lemma test_ASAHI_CMDBUF_SET_WHEN_RELOADING_Z_OR_S:
  "flag_test w ASAHI_CMDBUF_SET_WHEN_RELOADING_Z_OR_S \<longleftrightarrow> bit w 1"
  by (rule flag_test_single) (simp_all add: bit_ASAHI_CMDBUF)

lemma test_ASAHI_CMDBUF_MEMORYLESS_RTS_USED:
  "flag_test w ASAHI_CMDBUF_MEMORYLESS_RTS_USED \<longleftrightarrow> bit w 2"
  by (rule flag_test_single) (simp_all add: bit_ASAHI_CMDBUF)

lemma test_ASAHI_CMDBUF_PROCESS_EMPTY_TILES:
  "flag_test w ASAHI_CMDBUF_PROCESS_EMPTY_TILES \<longleftrightarrow> bit w 3"
  by (rule flag_test_single) (simp_all add: bit_ASAHI_CMDBUF)

lemmas test_ASAHI_CMDBUF =
  test_ASAHI_CMDBUF_NO_CLEAR_PIPELINE_TEXTURES test_ASAHI_CMDBUF_SET_WHEN_RELOADING_Z_OR_S
  test_ASAHI_CMDBUF_MEMORYLESS_RTS_USED test_ASAHI_CMDBUF_PROCESS_EMPTY_TILES

lemma drm_ioctl_asahi_all: "op \<in> set drm_ioctl_asahi_decl"
  by (cases op) (simp_all add: drm_ioctl_asahi_decl_def)

lemma drm_asahi_param_all: "p \<in> set drm_asahi_param_decl"
  by (cases p) (simp_all add: drm_asahi_param_decl_def)

subsection \<open>The version parameter\<close>

text \<open>
  Claim C5. The unstable-UABI version is a parameter of the query interface: it is an
  enumerator of the parameter ids, the first one declared, so its id is 0 and no other
  parameter has that id; in this revision of the protocol the version is 4. (That
  callers must check it before relying on structure layout is an obligation on the
  callers, which the header cannot enforce.)
\<close>

theorem C5_unstable_uabi_version:
  "DRM_ASAHI_UNSTABLE_UABI_VERSION = 4
   \<and> DRM_ASAHI_PARAM_UNSTABLE_UABI_VERSION \<in> set drm_asahi_param_decl
   \<and> hd drm_asahi_param_decl = DRM_ASAHI_PARAM_UNSTABLE_UABI_VERSION
   \<and> drm_asahi_param_val DRM_ASAHI_PARAM_UNSTABLE_UABI_VERSION = 0
   \<and> (\<forall>p. drm_asahi_param_val p = 0 \<longleftrightarrow> p = DRM_ASAHI_PARAM_UNSTABLE_UABI_VERSION)"
proof -
  have first: "drm_asahi_param_val p = 0 \<longleftrightarrow> p = DRM_ASAHI_PARAM_UNSTABLE_UABI_VERSION" for p
    by (cases p) (simp_all add: drm_asahi_param_val_def drm_asahi_param_decl_def)
  have "hd drm_asahi_param_decl = DRM_ASAHI_PARAM_UNSTABLE_UABI_VERSION"
    by (simp add: drm_asahi_param_decl_def)
  with first drm_asahi_param_all show ?thesis
    by (simp add: DRM_ASAHI_UNSTABLE_UABI_VERSION_def)
qed

subsection \<open>The operations and their argument structures\<close>

text \<open>
  Claim C2. The transport has exactly nine numbered operations, with the consecutive
  opcodes GetParam = 0x00, VmCreate = 0x01, VmDestroy = 0x02, GemCreate = 0x03,
  GemMmapOffset = 0x04, GemBind = 0x05, QueueCreate = 0x06, QueueDestroy = 0x07 and
  Submit = 0x08. Each takes one argument structure of a fixed size (16, 8, 8, 16, 16,
  40, 20, 4 and 40 bytes), and every field of the specification's operation table is a
  field of that structure: GemBind takes exactly handle, vm id, offset, range, addr and
  flags, and Submit exactly queue id, cmd type, cmd-buffer pointer, flags, the in-sync
  handles (count and array) and the out-sync handle. The operations whose table entry
  has a response are the ones declared read-write. The only fields of the structures
  beyond the table are the reserved words: \<open>pad\<close> of GetParam, VmCreate and VmDestroy,
  and \<open>flags\<close> of QueueCreate.
\<close>

theorem C2_operations_and_arguments:
  "length drm_ioctl_asahi_decl = 9
   \<and> distinct drm_ioctl_asahi_decl
   \<and> (\<forall>op. op \<in> set drm_ioctl_asahi_decl)
   \<and> map ioctl_nr drm_ioctl_asahi_decl = [0, 1, 2, 3, 4, 5, 6, 7, 8]
   \<and> [DRM_ASAHI_GET_PARAM, DRM_ASAHI_VM_CREATE, DRM_ASAHI_VM_DESTROY, DRM_ASAHI_GEM_CREATE,
       DRM_ASAHI_GEM_MMAP_OFFSET, DRM_ASAHI_GEM_BIND, DRM_ASAHI_QUEUE_CREATE,
       DRM_ASAHI_QUEUE_DESTROY, DRM_ASAHI_SUBMIT]
      = [0x00, 0x01, 0x02, 0x03, 0x04, 0x05, 0x06, 0x07, 0x08]
   \<and> map (\<lambda>op. sizeof (C_struct (ioctl_arg op))) drm_ioctl_asahi_decl
      = [16, 8, 8, 16, 16, 40, 20, 4, 40]
   \<and> list_all table_fields_declared drm_ioctl_asahi_decl
   \<and> map unlisted_fields drm_ioctl_asahi_decl
      = [[''pad''], [''pad''], [''pad''], [], [], [], [''flags''], [], []]
   \<and> map (\<lambda>op. spec_table_response op \<noteq> []) drm_ioctl_asahi_decl
      = map (\<lambda>op. ioctl_dir op = DRM_IOWR) drm_ioctl_asahi_decl
   \<and> field_names (ioctl_arg DRM_IOCTL_ASAHI_GEM_BIND)
      = [''handle'', ''vm_id'', ''offset'', ''range'', ''addr'', ''flags'']
   \<and> field_names (ioctl_arg DRM_IOCTL_ASAHI_SUBMIT)
      = [''queue_id'', ''cmd_type'', ''cmd_buffer'', ''flags'', ''in_sync_count'', ''in_syncs'',
         ''out_sync'']"
proof -
  have n: "length drm_ioctl_asahi_decl = 9 \<and> distinct drm_ioctl_asahi_decl"
    by (simp add: drm_ioctl_asahi_decl_def)
  have nr: "map ioctl_nr drm_ioctl_asahi_decl = [0, 1, 2, 3, 4, 5, 6, 7, 8]"
    by code_simp
  have opc: "[DRM_ASAHI_GET_PARAM, DRM_ASAHI_VM_CREATE, DRM_ASAHI_VM_DESTROY,
       DRM_ASAHI_GEM_CREATE, DRM_ASAHI_GEM_MMAP_OFFSET, DRM_ASAHI_GEM_BIND,
       DRM_ASAHI_QUEUE_CREATE, DRM_ASAHI_QUEUE_DESTROY, DRM_ASAHI_SUBMIT]
      = [0x00, 0x01, 0x02, 0x03, 0x04, 0x05, 0x06, 0x07, 0x08]"
    by (simp add: DRM_ASAHI_GET_PARAM_def DRM_ASAHI_VM_CREATE_def DRM_ASAHI_VM_DESTROY_def
        DRM_ASAHI_GEM_CREATE_def DRM_ASAHI_GEM_MMAP_OFFSET_def DRM_ASAHI_GEM_BIND_def
        DRM_ASAHI_QUEUE_CREATE_def DRM_ASAHI_QUEUE_DESTROY_def DRM_ASAHI_SUBMIT_def)
  have sz: "map (\<lambda>op. sizeof (C_struct (ioctl_arg op))) drm_ioctl_asahi_decl
      = [16, 8, 8, 16, 16, 40, 20, 4, 40]"
    by code_simp
  have decl: "list_all table_fields_declared drm_ioctl_asahi_decl"
    by code_simp
  have unl: "map unlisted_fields drm_ioctl_asahi_decl
      = [[''pad''], [''pad''], [''pad''], [], [], [], [''flags''], [], []]"
    by code_simp
  have dir: "map (\<lambda>op. spec_table_response op \<noteq> []) drm_ioctl_asahi_decl
      = map (\<lambda>op. ioctl_dir op = DRM_IOWR) drm_ioctl_asahi_decl"
    by (simp add: drm_ioctl_asahi_decl_def)
  have gb: "field_names (ioctl_arg DRM_IOCTL_ASAHI_GEM_BIND)
      = [''handle'', ''vm_id'', ''offset'', ''range'', ''addr'', ''flags'']"
    by (simp add: field_names_def struct_drm_asahi_gem_bind_def)
  have sb: "field_names (ioctl_arg DRM_IOCTL_ASAHI_SUBMIT)
      = [''queue_id'', ''cmd_type'', ''cmd_buffer'', ''flags'', ''in_sync_count'', ''in_syncs'',
         ''out_sync'']"
    by (simp add: field_names_def struct_drm_asahi_submit_def)
  from n nr opc sz decl unl dir gb sb drm_ioctl_asahi_all show ?thesis
    by (intro conjI allI) blast+
qed

subsection \<open>Reserved fields of the argument structures\<close>

text \<open>
  Claim C10. The argument structures carry reserved fields that the specification's
  operation table does not list: queue creation carries a \<open>flags\<close> word beside vm id,
  queue type and priority, and the structures of get_param, vm_create and vm_destroy
  each carry a \<open>pad\<close> word. The header documents each of them as must-be-zero, so an
  argument block honours the header's contract for these four operations exactly when
  that field holds zero: a non-zero value in any of them makes the request invalid.
\<close>

theorem C10_reserved_fields_must_be_zero:
  "spec_table_request DRM_IOCTL_ASAHI_QUEUE_CREATE = [''vm_id'', ''queue_type'', ''priority'']
   \<and> field_type struct_drm_asahi_queue_create ''flags'' = Some C_u32
   \<and> field_type struct_drm_asahi_get_param ''pad'' = Some C_u32
   \<and> field_type struct_drm_asahi_vm_create ''pad'' = Some C_u32
   \<and> field_type struct_drm_asahi_vm_destroy ''pad'' = Some C_u32
   \<and> unlisted_fields DRM_IOCTL_ASAHI_QUEUE_CREATE = [''flags'']
   \<and> unlisted_fields DRM_IOCTL_ASAHI_GET_PARAM = [''pad'']
   \<and> unlisted_fields DRM_IOCTL_ASAHI_VM_CREATE = [''pad'']
   \<and> unlisted_fields DRM_IOCTL_ASAHI_VM_DESTROY = [''pad'']
   \<and> ioctl_mbz DRM_IOCTL_ASAHI_QUEUE_CREATE = [''flags'']
   \<and> ioctl_mbz DRM_IOCTL_ASAHI_GET_PARAM = [''pad'']
   \<and> ioctl_mbz DRM_IOCTL_ASAHI_VM_CREATE = [''pad'']
   \<and> ioctl_mbz DRM_IOCTL_ASAHI_VM_DESTROY = [''pad'']
   \<and> (\<forall>v. mbz_ok DRM_IOCTL_ASAHI_QUEUE_CREATE v \<longleftrightarrow> v ''flags'' = 0)
   \<and> (\<forall>v. mbz_ok DRM_IOCTL_ASAHI_GET_PARAM v \<longleftrightarrow> v ''pad'' = 0)
   \<and> (\<forall>v. mbz_ok DRM_IOCTL_ASAHI_VM_CREATE v \<longleftrightarrow> v ''pad'' = 0)
   \<and> (\<forall>v. mbz_ok DRM_IOCTL_ASAHI_VM_DESTROY v \<longleftrightarrow> v ''pad'' = 0)"
proof -
  have ty: "field_type struct_drm_asahi_queue_create ''flags'' = Some C_u32
      \<and> field_type struct_drm_asahi_get_param ''pad'' = Some C_u32
      \<and> field_type struct_drm_asahi_vm_create ''pad'' = Some C_u32
      \<and> field_type struct_drm_asahi_vm_destroy ''pad'' = Some C_u32"
    by (simp add: field_type_def struct_drm_asahi_queue_create_def
        struct_drm_asahi_get_param_def struct_drm_asahi_vm_create_def
        struct_drm_asahi_vm_destroy_def)
  have u1: "unlisted_fields DRM_IOCTL_ASAHI_QUEUE_CREATE = [''flags'']" by code_simp
  have u2: "unlisted_fields DRM_IOCTL_ASAHI_GET_PARAM = [''pad'']" by code_simp
  have u3: "unlisted_fields DRM_IOCTL_ASAHI_VM_CREATE = [''pad'']" by code_simp
  have u4: "unlisted_fields DRM_IOCTL_ASAHI_VM_DESTROY = [''pad'']" by code_simp
  from ty u1 u2 u3 u4 show ?thesis
    by (simp add: mbz_ok_def)
qed

subsection \<open>The shape of the render command buffer\<close>

text \<open>
  Claim C3. The render command buffer is a fixed-shape descriptor. It names the frame
  and tile dimensions \<open>fb_width\<close>, \<open>fb_height\<close>, \<open>utile_width\<close>, \<open>utile_height\<close>,
  \<open>samples\<close> and \<open>layers\<close>; pipeline references for exactly four phases (load, store,
  partial reload, partial store), each followed at once by its one bind parameter
  word; and depth, depth-metadata, stencil and stencil-metadata buffer addresses with
  exactly three slots each. Its control flags are exactly four single bits of the
  64-bit \<open>flags\<close> word: skip the pipeline-texture clear is bit 0, set when reloading
  depth or stencil bit 1, memoryless render targets used bit 2, process empty tiles
  bit 3. They are independent: setting or clearing one of them changes that bit of the
  word and no other, and the test of a flag reads its own bit only.
\<close>

theorem C3_render_command_buffer_shape:
  "map (field_type struct_drm_asahi_cmd_render)
       [''fb_width'', ''fb_height'', ''utile_width'', ''utile_height'', ''samples'', ''layers'']
     = [Some C_u32, Some C_u32, Some C_u32, Some C_u32, Some C_u32, Some C_u32]
   \<and> filter (ends_with ''_pipeline'') (field_names struct_drm_asahi_cmd_render)
     = [''load_pipeline'', ''store_pipeline'', ''partial_reload_pipeline'',
        ''partial_store_pipeline'']
   \<and> filter (ends_with ''_bind'') (field_names struct_drm_asahi_cmd_render)
     = [''load_pipeline_bind'', ''store_pipeline_bind'', ''partial_reload_pipeline_bind'',
        ''partial_store_pipeline_bind'']
   \<and> map (field_type struct_drm_asahi_cmd_render)
       [''load_pipeline'', ''store_pipeline'', ''partial_reload_pipeline'',
        ''partial_store_pipeline'']
     = [Some C_u32, Some C_u32, Some C_u32, Some C_u32]
   \<and> map (next_field struct_drm_asahi_cmd_render)
       [''load_pipeline'', ''store_pipeline'', ''partial_reload_pipeline'',
        ''partial_store_pipeline'']
     = [Some (''load_pipeline_bind'', C_u32), Some (''store_pipeline_bind'', C_u32),
        Some (''partial_reload_pipeline_bind'', C_u32),
        Some (''partial_store_pipeline_bind'', C_u32)]
   \<and> filter (starts_with ''depth_buffer_'') (field_names struct_drm_asahi_cmd_render)
     = [''depth_buffer_1'', ''depth_buffer_2'', ''depth_buffer_3'']
   \<and> filter (starts_with ''depth_meta_buffer_'') (field_names struct_drm_asahi_cmd_render)
     = [''depth_meta_buffer_1'', ''depth_meta_buffer_2'', ''depth_meta_buffer_3'']
   \<and> filter (starts_with ''stencil_buffer_'') (field_names struct_drm_asahi_cmd_render)
     = [''stencil_buffer_1'', ''stencil_buffer_2'', ''stencil_buffer_3'']
   \<and> filter (starts_with ''stencil_meta_buffer_'') (field_names struct_drm_asahi_cmd_render)
     = [''stencil_meta_buffer_1'', ''stencil_meta_buffer_2'', ''stencil_meta_buffer_3'']
   \<and> list_all (\<lambda>n. field_type struct_drm_asahi_cmd_render n = Some C_u64)
       [''depth_buffer_1'', ''depth_buffer_2'', ''depth_buffer_3'',
        ''depth_meta_buffer_1'', ''depth_meta_buffer_2'', ''depth_meta_buffer_3'',
        ''stencil_buffer_1'', ''stencil_buffer_2'', ''stencil_buffer_3'',
        ''stencil_meta_buffer_1'', ''stencil_meta_buffer_2'', ''stencil_meta_buffer_3'']
   \<and> field_type struct_drm_asahi_cmd_render ''flags'' = Some C_u64
   \<and> asahi_cmdbuf_flags = [1, 2, 4, 8]
   \<and> (\<forall>n. (bit ASAHI_CMDBUF_NO_CLEAR_PIPELINE_TEXTURES n \<longleftrightarrow> n = 0)
          \<and> (bit ASAHI_CMDBUF_SET_WHEN_RELOADING_Z_OR_S n \<longleftrightarrow> n = 1)
          \<and> (bit ASAHI_CMDBUF_MEMORYLESS_RTS_USED n \<longleftrightarrow> n = 2)
          \<and> (bit ASAHI_CMDBUF_PROCESS_EMPTY_TILES n \<longleftrightarrow> n = 3))
   \<and> (\<forall>w. map (flag_test w) asahi_cmdbuf_flags = [bit w 0, bit w 1, bit w 2, bit w 3])
   \<and> (\<forall>w n. map (\<lambda>f. bit (flag_set w f) n) asahi_cmdbuf_flags
            = [bit w n \<or> n = 0, bit w n \<or> n = 1, bit w n \<or> n = 2, bit w n \<or> n = 3])
   \<and> (\<forall>w n. map (\<lambda>f. bit (flag_clear w f) n) asahi_cmdbuf_flags
            = [bit w n \<and> n \<noteq> 0, bit w n \<and> n \<noteq> 1, bit w n \<and> n \<noteq> 2, bit w n \<and> n \<noteq> 3])
   \<and> (\<forall>w. map (flag_test (flag_set w ASAHI_CMDBUF_NO_CLEAR_PIPELINE_TEXTURES))
              asahi_cmdbuf_flags
            = [True, flag_test w ASAHI_CMDBUF_SET_WHEN_RELOADING_Z_OR_S,
               flag_test w ASAHI_CMDBUF_MEMORYLESS_RTS_USED,
               flag_test w ASAHI_CMDBUF_PROCESS_EMPTY_TILES]
          \<and> map (flag_test (flag_set w ASAHI_CMDBUF_SET_WHEN_RELOADING_Z_OR_S))
              asahi_cmdbuf_flags
            = [flag_test w ASAHI_CMDBUF_NO_CLEAR_PIPELINE_TEXTURES, True,
               flag_test w ASAHI_CMDBUF_MEMORYLESS_RTS_USED,
               flag_test w ASAHI_CMDBUF_PROCESS_EMPTY_TILES]
          \<and> map (flag_test (flag_set w ASAHI_CMDBUF_MEMORYLESS_RTS_USED))
              asahi_cmdbuf_flags
            = [flag_test w ASAHI_CMDBUF_NO_CLEAR_PIPELINE_TEXTURES,
               flag_test w ASAHI_CMDBUF_SET_WHEN_RELOADING_Z_OR_S, True,
               flag_test w ASAHI_CMDBUF_PROCESS_EMPTY_TILES]
          \<and> map (flag_test (flag_set w ASAHI_CMDBUF_PROCESS_EMPTY_TILES))
              asahi_cmdbuf_flags
            = [flag_test w ASAHI_CMDBUF_NO_CLEAR_PIPELINE_TEXTURES,
               flag_test w ASAHI_CMDBUF_SET_WHEN_RELOADING_Z_OR_S,
               flag_test w ASAHI_CMDBUF_MEMORYLESS_RTS_USED, True])
   \<and> (\<forall>w. map (flag_test (flag_clear w ASAHI_CMDBUF_NO_CLEAR_PIPELINE_TEXTURES))
              asahi_cmdbuf_flags
            = [False, flag_test w ASAHI_CMDBUF_SET_WHEN_RELOADING_Z_OR_S,
               flag_test w ASAHI_CMDBUF_MEMORYLESS_RTS_USED,
               flag_test w ASAHI_CMDBUF_PROCESS_EMPTY_TILES]
          \<and> map (flag_test (flag_clear w ASAHI_CMDBUF_SET_WHEN_RELOADING_Z_OR_S))
              asahi_cmdbuf_flags
            = [flag_test w ASAHI_CMDBUF_NO_CLEAR_PIPELINE_TEXTURES, False,
               flag_test w ASAHI_CMDBUF_MEMORYLESS_RTS_USED,
               flag_test w ASAHI_CMDBUF_PROCESS_EMPTY_TILES]
          \<and> map (flag_test (flag_clear w ASAHI_CMDBUF_MEMORYLESS_RTS_USED))
              asahi_cmdbuf_flags
            = [flag_test w ASAHI_CMDBUF_NO_CLEAR_PIPELINE_TEXTURES,
               flag_test w ASAHI_CMDBUF_SET_WHEN_RELOADING_Z_OR_S, False,
               flag_test w ASAHI_CMDBUF_PROCESS_EMPTY_TILES]
          \<and> map (flag_test (flag_clear w ASAHI_CMDBUF_PROCESS_EMPTY_TILES))
              asahi_cmdbuf_flags
            = [flag_test w ASAHI_CMDBUF_NO_CLEAR_PIPELINE_TEXTURES,
               flag_test w ASAHI_CMDBUF_SET_WHEN_RELOADING_Z_OR_S,
               flag_test w ASAHI_CMDBUF_MEMORYLESS_RTS_USED, False])"
proof -
  have dims: "map (field_type struct_drm_asahi_cmd_render)
       [''fb_width'', ''fb_height'', ''utile_width'', ''utile_height'', ''samples'', ''layers'']
     = [Some C_u32, Some C_u32, Some C_u32, Some C_u32, Some C_u32, Some C_u32]"
    by code_simp
  have pipes: "filter (ends_with ''_pipeline'') (field_names struct_drm_asahi_cmd_render)
     = [''load_pipeline'', ''store_pipeline'', ''partial_reload_pipeline'',
        ''partial_store_pipeline'']"
    by code_simp
  have binds: "filter (ends_with ''_bind'') (field_names struct_drm_asahi_cmd_render)
     = [''load_pipeline_bind'', ''store_pipeline_bind'', ''partial_reload_pipeline_bind'',
        ''partial_store_pipeline_bind'']"
    by code_simp
  have ptypes: "map (field_type struct_drm_asahi_cmd_render)
       [''load_pipeline'', ''store_pipeline'', ''partial_reload_pipeline'',
        ''partial_store_pipeline'']
     = [Some C_u32, Some C_u32, Some C_u32, Some C_u32]"
    by code_simp
  have paired: "map (next_field struct_drm_asahi_cmd_render)
       [''load_pipeline'', ''store_pipeline'', ''partial_reload_pipeline'',
        ''partial_store_pipeline'']
     = [Some (''load_pipeline_bind'', C_u32), Some (''store_pipeline_bind'', C_u32),
        Some (''partial_reload_pipeline_bind'', C_u32),
        Some (''partial_store_pipeline_bind'', C_u32)]"
    by code_simp
  have d: "filter (starts_with ''depth_buffer_'') (field_names struct_drm_asahi_cmd_render)
     = [''depth_buffer_1'', ''depth_buffer_2'', ''depth_buffer_3'']"
    by code_simp
  have dm: "filter (starts_with ''depth_meta_buffer_'') (field_names struct_drm_asahi_cmd_render)
     = [''depth_meta_buffer_1'', ''depth_meta_buffer_2'', ''depth_meta_buffer_3'']"
    by code_simp
  have st: "filter (starts_with ''stencil_buffer_'') (field_names struct_drm_asahi_cmd_render)
     = [''stencil_buffer_1'', ''stencil_buffer_2'', ''stencil_buffer_3'']"
    by code_simp
  have sm: "filter (starts_with ''stencil_meta_buffer_'') (field_names struct_drm_asahi_cmd_render)
     = [''stencil_meta_buffer_1'', ''stencil_meta_buffer_2'', ''stencil_meta_buffer_3'']"
    by code_simp
  have btypes: "list_all (\<lambda>n. field_type struct_drm_asahi_cmd_render n = Some C_u64)
       [''depth_buffer_1'', ''depth_buffer_2'', ''depth_buffer_3'',
        ''depth_meta_buffer_1'', ''depth_meta_buffer_2'', ''depth_meta_buffer_3'',
        ''stencil_buffer_1'', ''stencil_buffer_2'', ''stencil_buffer_3'',
        ''stencil_meta_buffer_1'', ''stencil_meta_buffer_2'', ''stencil_meta_buffer_3'']"
    by code_simp
  have fl: "field_type struct_drm_asahi_cmd_render ''flags'' = Some C_u64"
    by code_simp
  have vals: "asahi_cmdbuf_flags = [1, 2, 4, 8]"
    by (simp add: asahi_cmdbuf_flags_def ASAHI_CMDBUF_NO_CLEAR_PIPELINE_TEXTURES_def
        ASAHI_CMDBUF_SET_WHEN_RELOADING_Z_OR_S_def ASAHI_CMDBUF_MEMORYLESS_RTS_USED_def
        ASAHI_CMDBUF_PROCESS_EMPTY_TILES_def)
  have bits: "\<forall>n. (bit ASAHI_CMDBUF_NO_CLEAR_PIPELINE_TEXTURES n \<longleftrightarrow> n = 0)
          \<and> (bit ASAHI_CMDBUF_SET_WHEN_RELOADING_Z_OR_S n \<longleftrightarrow> n = 1)
          \<and> (bit ASAHI_CMDBUF_MEMORYLESS_RTS_USED n \<longleftrightarrow> n = 2)
          \<and> (bit ASAHI_CMDBUF_PROCESS_EMPTY_TILES n \<longleftrightarrow> n = 3)"
    by (simp add: bit_ASAHI_CMDBUF)
  have tests: "\<forall>w. map (flag_test w) asahi_cmdbuf_flags = [bit w 0, bit w 1, bit w 2, bit w 3]"
    by (simp add: asahi_cmdbuf_flags_def test_ASAHI_CMDBUF)
  have sets: "\<forall>w n. map (\<lambda>f. bit (flag_set w f) n) asahi_cmdbuf_flags
            = [bit w n \<or> n = 0, bit w n \<or> n = 1, bit w n \<or> n = 2, bit w n \<or> n = 3]"
    by (simp add: asahi_cmdbuf_flags_def bit_flag_set bit_ASAHI_CMDBUF)
  have clears: "\<forall>w n. map (\<lambda>f. bit (flag_clear w f) n) asahi_cmdbuf_flags
            = [bit w n \<and> n \<noteq> 0, bit w n \<and> n \<noteq> 1, bit w n \<and> n \<noteq> 2, bit w n \<and> n \<noteq> 3]"
    by (simp add: asahi_cmdbuf_flags_def bit_flag_clear bit_ASAHI_CMDBUF)
  have after_set: "\<forall>w. map (flag_test (flag_set w ASAHI_CMDBUF_NO_CLEAR_PIPELINE_TEXTURES))
              asahi_cmdbuf_flags
            = [True, flag_test w ASAHI_CMDBUF_SET_WHEN_RELOADING_Z_OR_S,
               flag_test w ASAHI_CMDBUF_MEMORYLESS_RTS_USED,
               flag_test w ASAHI_CMDBUF_PROCESS_EMPTY_TILES]
          \<and> map (flag_test (flag_set w ASAHI_CMDBUF_SET_WHEN_RELOADING_Z_OR_S))
              asahi_cmdbuf_flags
            = [flag_test w ASAHI_CMDBUF_NO_CLEAR_PIPELINE_TEXTURES, True,
               flag_test w ASAHI_CMDBUF_MEMORYLESS_RTS_USED,
               flag_test w ASAHI_CMDBUF_PROCESS_EMPTY_TILES]
          \<and> map (flag_test (flag_set w ASAHI_CMDBUF_MEMORYLESS_RTS_USED))
              asahi_cmdbuf_flags
            = [flag_test w ASAHI_CMDBUF_NO_CLEAR_PIPELINE_TEXTURES,
               flag_test w ASAHI_CMDBUF_SET_WHEN_RELOADING_Z_OR_S, True,
               flag_test w ASAHI_CMDBUF_PROCESS_EMPTY_TILES]
          \<and> map (flag_test (flag_set w ASAHI_CMDBUF_PROCESS_EMPTY_TILES))
              asahi_cmdbuf_flags
            = [flag_test w ASAHI_CMDBUF_NO_CLEAR_PIPELINE_TEXTURES,
               flag_test w ASAHI_CMDBUF_SET_WHEN_RELOADING_Z_OR_S,
               flag_test w ASAHI_CMDBUF_MEMORYLESS_RTS_USED, True]"
    by (simp add: asahi_cmdbuf_flags_def test_ASAHI_CMDBUF bit_flag_set bit_ASAHI_CMDBUF)
  have after_clear: "\<forall>w. map (flag_test (flag_clear w ASAHI_CMDBUF_NO_CLEAR_PIPELINE_TEXTURES))
              asahi_cmdbuf_flags
            = [False, flag_test w ASAHI_CMDBUF_SET_WHEN_RELOADING_Z_OR_S,
               flag_test w ASAHI_CMDBUF_MEMORYLESS_RTS_USED,
               flag_test w ASAHI_CMDBUF_PROCESS_EMPTY_TILES]
          \<and> map (flag_test (flag_clear w ASAHI_CMDBUF_SET_WHEN_RELOADING_Z_OR_S))
              asahi_cmdbuf_flags
            = [flag_test w ASAHI_CMDBUF_NO_CLEAR_PIPELINE_TEXTURES, False,
               flag_test w ASAHI_CMDBUF_MEMORYLESS_RTS_USED,
               flag_test w ASAHI_CMDBUF_PROCESS_EMPTY_TILES]
          \<and> map (flag_test (flag_clear w ASAHI_CMDBUF_MEMORYLESS_RTS_USED))
              asahi_cmdbuf_flags
            = [flag_test w ASAHI_CMDBUF_NO_CLEAR_PIPELINE_TEXTURES,
               flag_test w ASAHI_CMDBUF_SET_WHEN_RELOADING_Z_OR_S, False,
               flag_test w ASAHI_CMDBUF_PROCESS_EMPTY_TILES]
          \<and> map (flag_test (flag_clear w ASAHI_CMDBUF_PROCESS_EMPTY_TILES))
              asahi_cmdbuf_flags
            = [flag_test w ASAHI_CMDBUF_NO_CLEAR_PIPELINE_TEXTURES,
               flag_test w ASAHI_CMDBUF_SET_WHEN_RELOADING_Z_OR_S,
               flag_test w ASAHI_CMDBUF_MEMORYLESS_RTS_USED, False]"
    by (simp add: asahi_cmdbuf_flags_def test_ASAHI_CMDBUF bit_flag_clear bit_ASAHI_CMDBUF)
  from dims pipes binds ptypes paired d dm st sm btypes fl vals bits tests sets clears
    after_set after_clear
  show ?thesis
    by (intro conjI) assumption+
qed

subsection \<open>Fields of the render command buffer beyond the specification's list\<close>

text \<open>
  Claim C9. Beyond the fields the specification enumerates, the render command buffer
  carries further GPU-address and hardware-control fields in its fixed layout: an
  encoder pointer with an encoder id, a scissor array, a depth-bias array, a
  visibility-result buffer, the zls and ppp control words, the merge bounds, the
  background-object depth and value words, and the opaque words \<open>iogpu_unk_49\<close>,
  \<open>iogpu_unk_212\<close> and \<open>iogpu_unk_214\<close>. In all, eighteen fields of the header are not
  enumerated. A reader who declares the structure from the enumerated fields alone gets
  another layout: 424 bytes instead of 520, with \<open>depth_buffer_1\<close> at offset 8 instead
  of 16, \<open>fb_width\<close> at 104 instead of 156 and the attachments at 160 instead of 256.
\<close>

theorem C9_render_fields_beyond_the_spec:
  "map (field_type struct_drm_asahi_cmd_render)
       [''encoder_ptr'', ''encoder_id'', ''scissor_array'', ''depth_bias_array'',
        ''visibility_result_buffer'', ''zls_ctrl'', ''ppp_multisamplectl'', ''ppp_ctrl'',
        ''merge_upper_x'', ''merge_upper_y'', ''isp_bgobjdepth'', ''isp_bgobjvals'',
        ''iogpu_unk_49'', ''iogpu_unk_212'', ''iogpu_unk_214'']
     = [Some C_u64, Some C_u32, Some C_u64, Some C_u64,
        Some C_u64, Some C_u64, Some C_u64, Some C_u32,
        Some C_u32, Some C_u32, Some C_u32, Some C_u32,
        Some C_u32, Some C_u32, Some C_u32]
   \<and> unlisted_render_fields
     = [''encoder_ptr'', ''scissor_array'', ''depth_bias_array'', ''visibility_result_buffer'',
        ''zls_ctrl'', ''ppp_multisamplectl'', ''ppp_ctrl'', ''encoder_id'', ''cmd_ta_id'',
        ''cmd_3d_id'', ''iogpu_unk_49'', ''iogpu_unk_212'', ''iogpu_unk_214'',
        ''merge_upper_x'', ''merge_upper_y'', ''depth_dimensions'', ''isp_bgobjdepth'',
        ''isp_bgobjvals'']
   \<and> list_all (\<lambda>n. n \<in> set (field_names struct_drm_asahi_cmd_render))
        spec_listed_render_fields
   \<and> length (field_names struct_drm_asahi_cmd_render) = 47
   \<and> length spec_listed_render_fields = 29
   \<and> sizeof (C_struct struct_drm_asahi_cmd_render) = 520
   \<and> sizeof (C_struct spec_listed_render_struct) = 424
   \<and> map (offsetof struct_drm_asahi_cmd_render)
       [''depth_buffer_1'', ''fb_width'', ''attachments'', ''attachment_count'']
     = [Some 16, Some 156, Some 256, Some 512]
   \<and> map (offsetof spec_listed_render_struct)
       [''depth_buffer_1'', ''fb_width'', ''attachments'', ''attachment_count'']
     = [Some 8, Some 104, Some 160, Some 416]"
proof -
  have types: "map (field_type struct_drm_asahi_cmd_render)
       [''encoder_ptr'', ''encoder_id'', ''scissor_array'', ''depth_bias_array'',
        ''visibility_result_buffer'', ''zls_ctrl'', ''ppp_multisamplectl'', ''ppp_ctrl'',
        ''merge_upper_x'', ''merge_upper_y'', ''isp_bgobjdepth'', ''isp_bgobjvals'',
        ''iogpu_unk_49'', ''iogpu_unk_212'', ''iogpu_unk_214'']
     = [Some C_u64, Some C_u32, Some C_u64, Some C_u64,
        Some C_u64, Some C_u64, Some C_u64, Some C_u32,
        Some C_u32, Some C_u32, Some C_u32, Some C_u32,
        Some C_u32, Some C_u32, Some C_u32]"
    by code_simp
  have unl: "unlisted_render_fields
     = [''encoder_ptr'', ''scissor_array'', ''depth_bias_array'', ''visibility_result_buffer'',
        ''zls_ctrl'', ''ppp_multisamplectl'', ''ppp_ctrl'', ''encoder_id'', ''cmd_ta_id'',
        ''cmd_3d_id'', ''iogpu_unk_49'', ''iogpu_unk_212'', ''iogpu_unk_214'',
        ''merge_upper_x'', ''merge_upper_y'', ''depth_dimensions'', ''isp_bgobjdepth'',
        ''isp_bgobjvals'']"
    by code_simp
  have listed: "list_all (\<lambda>n. n \<in> set (field_names struct_drm_asahi_cmd_render))
      spec_listed_render_fields"
    by code_simp
  have n47: "length (field_names struct_drm_asahi_cmd_render) = 47"
    by (simp add: field_names_def struct_drm_asahi_cmd_render_def)
  have n29: "length spec_listed_render_fields = 29"
    by (simp add: spec_listed_render_fields_def)
  have full: "sizeof (C_struct struct_drm_asahi_cmd_render) = 520"
    by code_simp
  have part: "sizeof (C_struct spec_listed_render_struct) = 424"
    by code_simp
  have offs: "map (offsetof struct_drm_asahi_cmd_render)
       [''depth_buffer_1'', ''fb_width'', ''attachments'', ''attachment_count'']
     = [Some 16, Some 156, Some 256, Some 512]"
    by code_simp
  have offs': "map (offsetof spec_listed_render_struct)
       [''depth_buffer_1'', ''fb_width'', ''attachments'', ''attachment_count'']
     = [Some 8, Some 104, Some 160, Some 416]"
    by code_simp
  from types unl listed n47 n29 full part offs offs' show ?thesis
    by (intro conjI) assumption+
qed

section \<open>Properties of the operations\<close>

subsection \<open>Parameter query\<close>

lemma drm_asahi_param_val_decl:
  "map drm_asahi_param_val drm_asahi_param_decl = [0, 1, 2, 3, 4, 5, 6, 7, 8, 9, 10, 11]"
  by (simp add: drm_asahi_param_val_def drm_asahi_param_decl_def)

lemma drm_asahi_param_val_nth:
  assumes "n < 12"
  shows "drm_asahi_param_val (drm_asahi_param_decl ! n) = n"
proof -
  have "list_all (\<lambda>k. drm_asahi_param_val (drm_asahi_param_decl ! k) = k) [0..<12]"
    by code_simp
  with assms show ?thesis
    by (simp add: list_all_iff)
qed

lemma drm_asahi_param_val_inj:
  "drm_asahi_param_val p = drm_asahi_param_val q \<Longrightarrow> p = q"
  by (cases p; cases q) (simp_all add: drm_asahi_param_val_def drm_asahi_param_decl_def)

lemma find_param_nth:
  assumes "n < 12"
  shows "find (\<lambda>p. drm_asahi_param_val p = n) drm_asahi_param_decl
         = Some (drm_asahi_param_decl ! n)"
proof -
  have "list_all (\<lambda>k. find (\<lambda>p. drm_asahi_param_val p = k) drm_asahi_param_decl
                        = Some (drm_asahi_param_decl ! k)) [0..<12]"
    by code_simp
  with assms show ?thesis
    by (simp add: list_all_iff)
qed

lemma find_param_none:
  assumes "\<not> n < 12"
  shows "find (\<lambda>p. drm_asahi_param_val p = n) drm_asahi_param_decl = None"
  using assms by (simp add: drm_asahi_param_val_def drm_asahi_param_decl_def)

lemma drm_asahi_param_of_eq:
  "drm_asahi_param_of i =
     (if unat i < 12 then Some (drm_asahi_param_decl ! unat i) else None)"
  by (simp add: drm_asahi_param_of_def find_param_nth find_param_none)

text \<open>
  Claim C6. \<open>get_param\<close> takes a parameter id and returns a 64-bit value. The
  recognised ids are exactly those of the twelve enumerators, numbered 0 to 11 in this
  order: the UABI version; the GPU generation, variant, revision and chip id; the
  compatible and incompatible feature bitsets; the VM page size, user-region start and
  end, and shader-region start and end. For a recognised id the result is the device's
  value of that parameter; for every other id the call fails with \<open>UnknownParameter\<close>.
  In both cases the state is returned unchanged.
\<close>

theorem C6_get_param:
  "drm_asahi_param_decl =
     [DRM_ASAHI_PARAM_UNSTABLE_UABI_VERSION,
      DRM_ASAHI_PARAM_GPU_GENERATION, DRM_ASAHI_PARAM_GPU_VARIANT,
      DRM_ASAHI_PARAM_GPU_REVISION, DRM_ASAHI_PARAM_CHIP_ID,
      DRM_ASAHI_PARAM_FEAT_COMPAT, DRM_ASAHI_PARAM_FEAT_INCOMPAT,
      DRM_ASAHI_PARAM_VM_PAGE_SIZE, DRM_ASAHI_PARAM_VM_USER_START,
      DRM_ASAHI_PARAM_VM_USER_END, DRM_ASAHI_PARAM_VM_SHADER_START,
      DRM_ASAHI_PARAM_VM_SHADER_END]
   \<and> (\<forall>p. p \<in> set drm_asahi_param_decl)
   \<and> map drm_asahi_param_val drm_asahi_param_decl = [0, 1, 2, 3, 4, 5, 6, 7, 8, 9, 10, 11]
   \<and> (\<forall>i. (\<exists>p. drm_asahi_param_of i = Some p) \<longleftrightarrow> unat i < 12)
   \<and> (\<forall>i p. drm_asahi_param_of i = Some p \<longleftrightarrow> unat i < 12 \<and> drm_asahi_param_val p = unat i)
   \<and> (\<forall>s i. get_param s i =
          (s, if unat i < 12
              then Inr (param_value (params s) (drm_asahi_param_decl ! unat i))
              else Inl UnknownParameter))"
proof -
  have decl: "drm_asahi_param_decl =
     [DRM_ASAHI_PARAM_UNSTABLE_UABI_VERSION,
      DRM_ASAHI_PARAM_GPU_GENERATION, DRM_ASAHI_PARAM_GPU_VARIANT,
      DRM_ASAHI_PARAM_GPU_REVISION, DRM_ASAHI_PARAM_CHIP_ID,
      DRM_ASAHI_PARAM_FEAT_COMPAT, DRM_ASAHI_PARAM_FEAT_INCOMPAT,
      DRM_ASAHI_PARAM_VM_PAGE_SIZE, DRM_ASAHI_PARAM_VM_USER_START,
      DRM_ASAHI_PARAM_VM_USER_END, DRM_ASAHI_PARAM_VM_SHADER_START,
      DRM_ASAHI_PARAM_VM_SHADER_END]"
    by (rule drm_asahi_param_decl_def)
  have all: "\<forall>p. p \<in> set drm_asahi_param_decl"
    by (simp add: drm_asahi_param_all)
  have recognised: "\<forall>i. (\<exists>p. drm_asahi_param_of i = Some p) \<longleftrightarrow> unat i < 12"
    by (simp add: drm_asahi_param_of_eq)
  have which: "\<forall>i p. drm_asahi_param_of i = Some p
      \<longleftrightarrow> unat i < 12 \<and> drm_asahi_param_val p = unat i"
  proof (intro allI)
    fix i p
    show "drm_asahi_param_of i = Some p \<longleftrightarrow> unat i < 12 \<and> drm_asahi_param_val p = unat i"
      using drm_asahi_param_val_nth [of "unat i"]
        drm_asahi_param_val_inj [of "drm_asahi_param_decl ! unat i" p]
      by (auto simp: drm_asahi_param_of_eq)
  qed
  have result: "\<forall>s i. get_param s i =
          (s, if unat i < 12
              then Inr (param_value (params s) (drm_asahi_param_decl ! unat i))
              else Inl UnknownParameter)"
    by (simp add: get_param_def drm_asahi_param_of_eq)
  from decl all drm_asahi_param_val_decl recognised which result show ?thesis
    by (intro conjI) assumption+
qed

subsection \<open>Binding Table\<close>

lemma ranges_overlap_sym: "ranges_overlap a1 r1 a2 r2 = ranges_overlap a2 r2 a1 r1"
  by (auto simp: ranges_overlap_def)

lemma binds_overlap_sym: "binds_overlap b1 b2 = binds_overlap b2 b1"
  unfolding binds_overlap_def by (rule ranges_overlap_sym)

lemma ranges_overlap_iff:
  "ranges_overlap a1 r1 a2 r2 \<longleftrightarrow> (\<exists>x. a1 \<le> x \<and> x < a1 + r1 \<and> a2 \<le> x \<and> x < a2 + r2)"
proof
  assume "ranges_overlap a1 r1 a2 r2"
  then have "a1 \<le> max a1 a2 \<and> max a1 a2 < a1 + r1 \<and> a2 \<le> max a1 a2 \<and> max a1 a2 < a2 + r2"
    by (auto simp: ranges_overlap_def)
  then show "\<exists>x. a1 \<le> x \<and> x < a1 + r1 \<and> a2 \<le> x \<and> x < a2 + r2" ..
next
  assume "\<exists>x. a1 \<le> x \<and> x < a1 + r1 \<and> a2 \<le> x \<and> x < a2 + r2"
  then show "ranges_overlap a1 r1 a2 r2"
    by (auto simp: ranges_overlap_def)
qed

text \<open>What a bind call returns, by cases on its checks.\<close>

lemma bind_success_iff:
  "snd (bind s b) = Inr () \<longleftrightarrow>
     (\<exists>obj bs. objects s (handle b) = Some obj \<and> vms s (vm_id b) = Some bs
        \<and> unat (offset b) + unat (range_f b) \<le> unat (obj_size obj)
        \<and> in_vm_region (params s) b
        \<and> \<not> list_ex (\<lambda>e. binds_overlap e b) bs)"
  by (auto simp: bind_def split: option.splits)

lemma bind_success_state:
  assumes "snd (bind s b) = Inr ()"
  shows "\<exists>bs. vms s (vm_id b) = Some bs
          \<and> \<not> list_ex (\<lambda>e. binds_overlap e b) bs
          \<and> fst (bind s b) = s\<lparr>vms := (vms s)(vm_id b \<mapsto> bs @ [b])\<rparr>"
  using assms by (auto simp: bind_def split: option.splits if_splits)

lemma bind_failure_state:
  assumes "snd (bind s b) = Inl e"
  shows "fst (bind s b) = s"
  using assms by (auto simp: bind_def split: option.splits if_splits)

text \<open>A bind call changes nothing but the Binding Table of its VM, to which it can
  only append the request itself, and then only if the request overlaps no binding
  of the table.\<close>

lemma bind_frame:
  "objects (fst (bind s b)) = objects s \<and> params (fst (bind s b)) = params s"
  by (auto simp: bind_def split: option.splits)

lemma bind_table:
  assumes "vms s v = Some tbl"
  shows "vms (fst (bind s b)) v = Some tbl
         \<or> (vms (fst (bind s b)) v = Some (tbl @ [b]) \<and> \<not> list_ex (\<lambda>e. binds_overlap e b) tbl)"
  using assms by (auto simp: bind_def split: option.splits)

lemma bind_all_frame:
  "objects (bind_all s cs) = objects s \<and> params (bind_all s cs) = params s"
  by (induction cs arbitrary: s) (simp_all add: bind_frame)

lemma bind_all_table:
  assumes "vms s v = Some tbl"
  shows "\<exists>ext. vms (bind_all s cs) v = Some (tbl @ ext)
           \<and> list_all (\<lambda>e. \<not> list_ex (\<lambda>x. binds_overlap x e) tbl) ext"
  using assms
proof (induction cs arbitrary: s tbl)
  case Nil
  then have "vms (bind_all s []) v = Some (tbl @ [])
      \<and> list_all (\<lambda>e. \<not> list_ex (\<lambda>x. binds_overlap x e) tbl) []"
    by simp
  then show ?case by blast
next
  case (Cons c cs)
  from bind_table [OF Cons.prems, of c]
  consider (same) "vms (fst (bind s c)) v = Some tbl"
    | (added) "vms (fst (bind s c)) v = Some (tbl @ [c])"
        "\<not> list_ex (\<lambda>e. binds_overlap e c) tbl"
    by blast
  then show ?case
  proof cases
    case same
    from Cons.IH [OF same] show ?thesis by simp
  next
    case added
    from Cons.IH [OF added(1)] obtain ext where
      tbl': "vms (bind_all (fst (bind s c)) cs) v = Some ((tbl @ [c]) @ ext)"
      and free: "list_all (\<lambda>e. \<not> list_ex (\<lambda>x. binds_overlap x e) (tbl @ [c])) ext"
      by blast
    from free have "list_all (\<lambda>e. \<not> list_ex (\<lambda>x. binds_overlap x e) tbl) ext"
      by (auto simp: list_all_iff list_ex_iff)
    with added(2) have "list_all (\<lambda>e. \<not> list_ex (\<lambda>x. binds_overlap x e) tbl) (c # ext)"
      by simp
    moreover from tbl' have "vms (bind_all s (c # cs)) v = Some (tbl @ c # ext)"
      by simp
    ultimately show ?thesis by blast
  qed
qed

text \<open>A request that overlaps a binding of its VM's table is refused and changes
  nothing, whatever state the table is part of.\<close>

lemma bind_overlapping_committed:
  assumes "vms s (vm_id b2) = Some bs" and "b1 \<in> set bs" and "binds_overlap b1 b2"
  shows "snd (bind s b2) \<noteq> Inr () \<and> fst (bind s b2) = s"
proof -
  from assms have "list_ex (\<lambda>e. binds_overlap e b2) bs"
    by (auto simp: list_ex_iff)
  with assms(1) show ?thesis
    by (auto simp: bind_def split: option.splits)
qed

text \<open>The result of a request in a later state, in terms of its result in an earlier
  one: the checks before the overlap check read the objects, the parameters and the
  liveness of the VM only.\<close>

lemma bind_result_later:
  assumes obj: "objects s' = objects s" and par: "params s' = params s"
    and tbl: "vms s (vm_id b) = Some bs" and tbl': "vms s' (vm_id b) = Some bs'"
    and ex: "list_ex (\<lambda>e. binds_overlap e b) bs'"
  shows "bind s' b =
           (s', if snd (bind s b) = Inr () then Inl RangeConflict else snd (bind s b))"
  using tbl tbl' ex by (auto simp: bind_def obj par split: option.splits)

lemma bind_run_overlapping:
  assumes vm: "vm_id b1 = vm_id b2" and ov: "binds_overlap b1 b2"
    and ok1: "snd (bind s b1) = Inr ()"
  shows "bind (bind_all (fst (bind s b1)) mid) b2 =
           (bind_all (fst (bind s b1)) mid,
            if snd (bind s b2) = Inr () then Inl RangeConflict else snd (bind s b2))
         \<and> (\<exists>bs ext. vms s (vm_id b1) = Some bs
               \<and> vms (bind_all (fst (bind s b1)) mid) (vm_id b1) = Some (bs @ b1 # ext)
               \<and> list_all (\<lambda>e. \<not> binds_overlap e b1) bs
               \<and> list_all (\<lambda>e. \<not> binds_overlap b1 e) ext)"
proof -
  from bind_success_state [OF ok1] obtain bs where
    bs: "vms s (vm_id b1) = Some bs"
    and free: "\<not> list_ex (\<lambda>e. binds_overlap e b1) bs"
    and s1: "fst (bind s b1) = s\<lparr>vms := (vms s)(vm_id b1 \<mapsto> bs @ [b1])\<rparr>"
    by blast
  have t1: "vms (fst (bind s b1)) (vm_id b1) = Some (bs @ [b1])"
    by (simp add: s1)
  from bind_all_table [OF t1, of mid] obtain ext where
    t2: "vms (bind_all (fst (bind s b1)) mid) (vm_id b1) = Some ((bs @ [b1]) @ ext)"
    and ext: "list_all (\<lambda>e. \<not> list_ex (\<lambda>x. binds_overlap x e) (bs @ [b1])) ext"
    by blast
  have t2': "vms (bind_all (fst (bind s b1)) mid) (vm_id b1) = Some (bs @ b1 # ext)"
    using t2 by simp
  have ext': "list_all (\<lambda>e. \<not> binds_overlap b1 e) ext"
    using ext by (auto simp: list_all_iff list_ex_iff)
  have free': "list_all (\<lambda>e. \<not> binds_overlap e b1) bs"
    using free by (auto simp: list_all_iff list_ex_iff)
  have obj: "objects (bind_all (fst (bind s b1)) mid) = objects s"
    and par: "params (bind_all (fst (bind s b1)) mid) = params s"
    by (simp_all add: bind_all_frame bind_frame)
  have ex: "list_ex (\<lambda>e. binds_overlap e b2) (bs @ b1 # ext)"
    using ov by (simp add: list_ex_iff)
  have "bind (bind_all (fst (bind s b1)) mid) b2 =
           (bind_all (fst (bind s b1)) mid,
            if snd (bind s b2) = Inr () then Inl RangeConflict else snd (bind s b2))"
    using bind_result_later [OF obj par, of b2 bs "bs @ b1 # ext"] bs t2' ex vm
    by simp
  with bs t2' free' ext' show ?thesis by blast
qed

text \<open>
  Claim C7. For every VM and every pair of bind calls on it whose GPU address ranges
  overlap, made from any state, in either order (overlap is symmetric), with any run
  of further bind calls between them: the two do not both succeed. Once the first
  has succeeded, the second returns \<open>RangeConflict\<close> and leaves the state as it found
  it, unless one of the earlier checks (unknown handle, out of bounds, address out of
  range) already rejects it on its own, in which case it returns that error. The
  VM's table then holds the first binding once, among bindings none of which overlaps
  it: of the two, exactly one is committed. More generally, in any state a request
  that overlaps a binding of its VM's table is refused and changes nothing. Every
  bind call that fails, for whatever reason and whatever its range, returns the state
  it was given: no partial insertion. (Calls are atomic steps here; an execution of
  concurrent calls is one of their orders.)
\<close>

theorem C7_overlapping_binds:
  "(\<forall>s b e. snd (bind s b) = Inl e \<longrightarrow> fst (bind s b) = s)
   \<and> (\<forall>b1 b2. binds_overlap b1 b2 \<longleftrightarrow> binds_overlap b2 b1)
   \<and> (\<forall>s bs b1 b2. vms s (vm_id b2) = Some bs \<and> b1 \<in> set bs \<and> binds_overlap b1 b2 \<longrightarrow>
          snd (bind s b2) \<noteq> Inr () \<and> fst (bind s b2) = s)
   \<and> (\<forall>s b1 mid b2. vm_id b1 = vm_id b2 \<and> binds_overlap b1 b2 \<longrightarrow>
        (case bind s b1 of (s1, r1) \<Rightarrow>
         case bind (bind_all s1 mid) b2 of (s2, r2) \<Rightarrow>
            \<not> (r1 = Inr () \<and> r2 = Inr ())
            \<and> (r1 = Inr () \<longrightarrow>
                 r2 = (if snd (bind s b2) = Inr () then Inl RangeConflict else snd (bind s b2))
                 \<and> s2 = bind_all s1 mid
                 \<and> (\<exists>bs ext. vms s (vm_id b1) = Some bs
                       \<and> vms s2 (vm_id b1) = Some (bs @ b1 # ext)
                       \<and> list_all (\<lambda>e. \<not> binds_overlap e b1) bs
                       \<and> list_all (\<lambda>e. \<not> binds_overlap b1 e) ext))))"
proof -
  have fail: "\<forall>s b e. snd (bind s b) = Inl e \<longrightarrow> fst (bind s b) = s"
    using bind_failure_state by blast
  have sym: "\<forall>b1 b2. binds_overlap b1 b2 \<longleftrightarrow> binds_overlap b2 b1"
    using binds_overlap_sym by blast
  have committed: "\<forall>s bs b1 b2.
      vms s (vm_id b2) = Some bs \<and> b1 \<in> set bs \<and> binds_overlap b1 b2 \<longrightarrow>
      snd (bind s b2) \<noteq> Inr () \<and> fst (bind s b2) = s"
    using bind_overlapping_committed by blast
  have run: "\<forall>s b1 mid b2. vm_id b1 = vm_id b2 \<and> binds_overlap b1 b2 \<longrightarrow>
        (case bind s b1 of (s1, r1) \<Rightarrow>
         case bind (bind_all s1 mid) b2 of (s2, r2) \<Rightarrow>
            \<not> (r1 = Inr () \<and> r2 = Inr ())
            \<and> (r1 = Inr () \<longrightarrow>
                 r2 = (if snd (bind s b2) = Inr () then Inl RangeConflict else snd (bind s b2))
                 \<and> s2 = bind_all s1 mid
                 \<and> (\<exists>bs ext. vms s (vm_id b1) = Some bs
                       \<and> vms s2 (vm_id b1) = Some (bs @ b1 # ext)
                       \<and> list_all (\<lambda>e. \<not> binds_overlap e b1) bs
                       \<and> list_all (\<lambda>e. \<not> binds_overlap b1 e) ext)))"
  proof (intro allI impI)
    fix s b1 mid b2
    assume h: "vm_id b1 = vm_id b2 \<and> binds_overlap b1 b2"
    then have vm: "vm_id b1 = vm_id b2" and ov: "binds_overlap b1 b2" by simp_all
    obtain s1 r1 where c1: "bind s b1 = (s1, r1)" by (cases "bind s b1")
    obtain s2 r2 where c2: "bind (bind_all s1 mid) b2 = (s2, r2)"
      by (cases "bind (bind_all s1 mid) b2")
    have after: "r2 = (if snd (bind s b2) = Inr () then Inl RangeConflict
                       else snd (bind s b2))
        \<and> s2 = bind_all s1 mid
        \<and> (\<exists>bs ext. vms s (vm_id b1) = Some bs
              \<and> vms s2 (vm_id b1) = Some (bs @ b1 # ext)
              \<and> list_all (\<lambda>e. \<not> binds_overlap e b1) bs
              \<and> list_all (\<lambda>e. \<not> binds_overlap b1 e) ext)"
      if ok1: "r1 = Inr ()"
    proof -
      have ok1': "snd (bind s b1) = Inr ()" using ok1 c1 by simp
      from bind_run_overlapping [OF vm ov ok1', of mid] c1 c2 show ?thesis
        by simp
    qed
    have not_both: "\<not> (r1 = Inr () \<and> r2 = Inr ())"
    proof
      assume both: "r1 = Inr () \<and> r2 = Inr ()"
      with after have "r2 = (if snd (bind s b2) = Inr () then Inl RangeConflict
                             else snd (bind s b2))"
        by blast
      with both show False
        by (simp split: if_splits)
    qed
    from not_both after
    show "case bind s b1 of (s1, r1) \<Rightarrow>
         case bind (bind_all s1 mid) b2 of (s2, r2) \<Rightarrow>
            \<not> (r1 = Inr () \<and> r2 = Inr ())
            \<and> (r1 = Inr () \<longrightarrow>
                 r2 = (if snd (bind s b2) = Inr () then Inl RangeConflict else snd (bind s b2))
                 \<and> s2 = bind_all s1 mid
                 \<and> (\<exists>bs ext. vms s (vm_id b1) = Some bs
                       \<and> vms s2 (vm_id b1) = Some (bs @ b1 # ext)
                       \<and> list_all (\<lambda>e. \<not> binds_overlap e b1) bs
                       \<and> list_all (\<lambda>e. \<not> binds_overlap b1 e) ext))"
      unfolding c1 c2 prod.case by blast
  qed
  from fail sym committed run show ?thesis
    by (intro conjI) assumption+
qed

theorem C7_overlapping_binds_witness:
  "vm_id (example_bind 0x100000000) = vm_id (example_bind 0x100000800)
   \<and> binds_overlap (example_bind 0x100000000) (example_bind 0x100000800)
   \<and> \<not> binds_overlap (example_bind 0x100000000) (example_bind 0x100002000)
   \<and> snd (bind example_state (example_bind 0x100000000)) = Inr ()
   \<and> snd (bind example_state (example_bind 0x100000800)) = Inr ()
   \<and> snd (bind (fst (bind example_state (example_bind 0x100000000)))
             (example_bind 0x100002000)) = Inr ()
   \<and> vms (bind_all (fst (bind example_state (example_bind 0x100000000)))
             [example_bind 0x100002000]) 1
      = Some [example_bind 0x100000000, example_bind 0x100002000]
   \<and> snd (bind (bind_all (fst (bind example_state (example_bind 0x100000000)))
                  [example_bind 0x100002000])
             (example_bind 0x100000800)) = Inl RangeConflict
   \<and> fst (bind (bind_all (fst (bind example_state (example_bind 0x100000000)))
                  [example_bind 0x100002000])
             (example_bind 0x100000800))
      = bind_all (fst (bind example_state (example_bind 0x100000000)))
          [example_bind 0x100002000]
   \<and> range_f example_zero_bind = 0
   \<and> snd (bind example_state example_zero_bind) = Inl AddressOutOfRange
   \<and> fst (bind example_state example_zero_bind) = example_state"
proof -
  have vm: "vm_id (example_bind 0x100000000) = vm_id (example_bind 0x100000800)"
    by (simp add: example_bind_def)
  have ov: "binds_overlap (example_bind 0x100000000) (example_bind 0x100000800)"
    by (simp add: binds_overlap_def ranges_overlap_def example_bind_def)
  have apart: "\<not> binds_overlap (example_bind 0x100000000) (example_bind 0x100002000)"
    by (simp add: binds_overlap_def ranges_overlap_def example_bind_def)
  have ok1: "snd (bind example_state (example_bind 0x100000000)) = Inr ()"
    by (simp add: bind_def example_state_def example_params_def example_bind_def
        in_vm_region_def in_region_def)
  have ok2: "snd (bind example_state (example_bind 0x100000800)) = Inr ()"
    by (simp add: bind_def example_state_def example_params_def example_bind_def
        in_vm_region_def in_region_def)
  have s1: "fst (bind example_state (example_bind 0x100000000))
      = example_state\<lparr>vms := [1 \<mapsto> [example_bind 0x100000000]]\<rparr>"
    by (simp add: bind_def example_state_def example_params_def example_bind_def
        in_vm_region_def in_region_def)
  have okm: "snd (bind (fst (bind example_state (example_bind 0x100000000)))
             (example_bind 0x100002000)) = Inr ()"
    unfolding s1
    by (simp add: bind_def example_state_def example_params_def example_bind_def
        in_vm_region_def in_region_def binds_overlap_def ranges_overlap_def)
  have tbl: "vms (bind_all (fst (bind example_state (example_bind 0x100000000)))
             [example_bind 0x100002000]) 1
      = Some [example_bind 0x100000000, example_bind 0x100002000]"
    unfolding s1
    by (simp add: bind_def example_state_def example_params_def example_bind_def
        in_vm_region_def in_region_def binds_overlap_def ranges_overlap_def)
  have zero: "range_f example_zero_bind = 0"
    by (simp add: example_zero_bind_def)
  have zfail: "snd (bind example_state example_zero_bind) = Inl AddressOutOfRange"
    by (simp add: bind_def example_state_def example_params_def example_zero_bind_def
        in_vm_region_def in_region_def)
  note fail = C7_overlapping_binds [THEN conjunct1]
  note run = C7_overlapping_binds [THEN conjunct2, THEN conjunct2, THEN conjunct2]
  from fail zfail have zsame: "fst (bind example_state example_zero_bind) = example_state"
    by blast
  have inst: "case bind example_state (example_bind 0x100000000) of (s1, r1) \<Rightarrow>
         case bind (bind_all s1 [example_bind 0x100002000]) (example_bind 0x100000800)
         of (s2, r2) \<Rightarrow>
            \<not> (r1 = Inr () \<and> r2 = Inr ())
            \<and> (r1 = Inr () \<longrightarrow>
                 r2 = (if snd (bind example_state (example_bind 0x100000800)) = Inr ()
                       then Inl RangeConflict
                       else snd (bind example_state (example_bind 0x100000800)))
                 \<and> s2 = bind_all s1 [example_bind 0x100002000]
                 \<and> (\<exists>bs ext. vms example_state (vm_id (example_bind 0x100000000)) = Some bs
                       \<and> vms s2 (vm_id (example_bind 0x100000000))
                           = Some (bs @ example_bind 0x100000000 # ext)
                       \<and> list_all (\<lambda>e. \<not> binds_overlap e (example_bind 0x100000000)) bs
                       \<and> list_all (\<lambda>e. \<not> binds_overlap (example_bind 0x100000000) e) ext))"
    by (rule run [rule_format]) (simp add: vm ov)
  from inst ok1 ok2
  have r: "snd (bind (bind_all (fst (bind example_state (example_bind 0x100000000)))
                  [example_bind 0x100002000])
             (example_bind 0x100000800)) = Inl RangeConflict"
    and st: "fst (bind (bind_all (fst (bind example_state (example_bind 0x100000000)))
                  [example_bind 0x100002000])
             (example_bind 0x100000800))
      = bind_all (fst (bind example_state (example_bind 0x100000000)))
          [example_bind 0x100002000]"
    by (simp_all add: case_prod_unfold)
  from vm ov apart ok1 ok2 okm tbl r st zero zfail zsame show ?thesis
    by (intro conjI) assumption+
qed

subsection \<open>Render command buffer validation\<close>

lemma validate_render_ok_iff:
  "validate_render bs c = Inr () \<longleftrightarrow>
     unat (attachment_count c) \<le> ASAHI_MAX_ATTACHMENTS
     \<and> list_all (\<lambda>p. p = 0 \<or> resolves bs p) (render_pointers c)"
  by (simp add: validate_render_def)

lemma validate_render_too_many_iff:
  "validate_render bs c = Inl TooManyAttachments \<longleftrightarrow>
     ASAHI_MAX_ATTACHMENTS < unat (attachment_count c)"
  by (simp add: validate_render_def)

text \<open>
  Claim C4. The maximum attachment count of a render command buffer is 16, and the
  attachment array of the header has 16 entries. For every render command buffer and
  every Binding Table, validation rejects an attachment count of 17, and any count
  above 16, with \<open>TooManyAttachments\<close>, whatever the other fields hold; and it accepts
  an attachment count of 16 when every pointer field that is not null resolves to a
  binding of the submitting VM. \<open>TooManyAttachments\<close> is returned for no other
  buffers, and the accepted buffers are exactly those with a count of at most 16
  whose non-null pointers all resolve.
\<close>

theorem C4_max_attachments:
  "ASAHI_MAX_ATTACHMENTS = 16
   \<and> field_type struct_drm_asahi_cmd_render ''attachments''
       = Some (C_array (C_struct struct_drm_asahi_attachment) 16)
   \<and> (\<forall>bs c. attachment_count c = 17 \<longrightarrow> validate_render bs c = Inl TooManyAttachments)
   \<and> (\<forall>bs c. 16 < unat (attachment_count c) \<longrightarrow>
          validate_render bs c = Inl TooManyAttachments)
   \<and> (\<forall>bs c. attachment_count c = 16
          \<and> list_all (\<lambda>p. p = 0 \<or> resolves bs p) (render_pointers c) \<longrightarrow>
          validate_render bs c = Inr ())
   \<and> (\<forall>bs c. validate_render bs c = Inl TooManyAttachments \<longleftrightarrow>
          16 < unat (attachment_count c))
   \<and> (\<forall>bs c. validate_render bs c = Inr () \<longleftrightarrow>
          unat (attachment_count c) \<le> 16
          \<and> list_all (\<lambda>p. p = 0 \<or> resolves bs p) (render_pointers c))"
proof -
  have m: "ASAHI_MAX_ATTACHMENTS = 16"
    by (rule ASAHI_MAX_ATTACHMENTS_def)
  have arr: "field_type struct_drm_asahi_cmd_render ''attachments''
       = Some (C_array (C_struct struct_drm_asahi_attachment) 16)"
    by (simp add: field_type_def struct_drm_asahi_cmd_render_def m)
  have c17: "\<forall>bs c. attachment_count c = 17 \<longrightarrow> validate_render bs c = Inl TooManyAttachments"
    by (simp add: validate_render_too_many_iff m)
  have above: "\<forall>bs c. 16 < unat (attachment_count c) \<longrightarrow>
          validate_render bs c = Inl TooManyAttachments"
    by (simp add: validate_render_too_many_iff m)
  have c16: "\<forall>bs c. attachment_count c = 16
          \<and> list_all (\<lambda>p. p = 0 \<or> resolves bs p) (render_pointers c) \<longrightarrow>
          validate_render bs c = Inr ()"
    by (simp add: validate_render_ok_iff m)
  have only: "\<forall>bs c. validate_render bs c = Inl TooManyAttachments \<longleftrightarrow>
          16 < unat (attachment_count c)"
    by (simp add: validate_render_too_many_iff m)
  have ok: "\<forall>bs c. validate_render bs c = Inr () \<longleftrightarrow>
          unat (attachment_count c) \<le> 16
          \<and> list_all (\<lambda>p. p = 0 \<or> resolves bs p) (render_pointers c)"
    by (simp add: validate_render_ok_iff m)
  from m arr c17 above c16 only ok show ?thesis
    by (intro conjI) assumption+
qed

theorem C4_max_attachments_witness:
  "attachment_count (example_cmd_render 17) = 17
   \<and> validate_render [example_bind 0x100000000] (example_cmd_render 17)
       = Inl TooManyAttachments
   \<and> attachment_count (example_cmd_render 16) = 16
   \<and> list_all (\<lambda>p. p = 0 \<or> resolves [example_bind 0x100000000] p)
       (render_pointers (example_cmd_render 16))
   \<and> length (filter (\<lambda>p. p \<noteq> 0) (render_pointers (example_cmd_render 16))) = 17
   \<and> validate_render [example_bind 0x100000000] (example_cmd_render 16) = Inr ()"
proof -
  have n17: "attachment_count (example_cmd_render 17) = 17"
    by (simp add: example_cmd_render_def)
  have n16: "attachment_count (example_cmd_render 16) = 16"
    by (simp add: example_cmd_render_def)
  have atts: "map pointer (take (unat (attachment_count (example_cmd_render 16)))
                (attachments (example_cmd_render 16)))
      = replicate 16 0x100000000"
    by (simp add: example_cmd_render_def example_attachment_def ASAHI_MAX_ATTACHMENTS_def)
  have r1: "resolves [example_bind 0x100000000] 0x100000800"
    by (simp add: resolves_def example_bind_def)
  have r2: "resolves [example_bind 0x100000000] 0x100000000"
    by (simp add: resolves_def example_bind_def)
  have bound: "list_all (\<lambda>p. p = 0 \<or> resolves [example_bind 0x100000000] p)
       (render_pointers (example_cmd_render 16))"
    unfolding render_pointers_def atts
    by (simp add: example_cmd_render_def r1 r2 list_all_iff)
  have nonnull: "length (filter (\<lambda>p. p \<noteq> 0) (render_pointers (example_cmd_render 16))) = 17"
    unfolding render_pointers_def atts
    by (simp add: example_cmd_render_def)
  from C4_max_attachments
  have rej: "\<forall>bs c. attachment_count c = 17 \<longrightarrow> validate_render bs c = Inl TooManyAttachments"
    and acc: "\<forall>bs c. attachment_count c = 16
          \<and> list_all (\<lambda>p. p = 0 \<or> resolves bs p) (render_pointers c) \<longrightarrow>
          validate_render bs c = Inr ()"
    by blast+
  from rej n17
  have v17: "validate_render [example_bind 0x100000000] (example_cmd_render 17)
       = Inl TooManyAttachments"
    by blast
  from acc n16 bound
  have v16: "validate_render [example_bind 0x100000000] (example_cmd_render 16) = Inr ()"
    by blast
  from n17 v17 n16 bound nonnull v16 show ?thesis
    by (intro conjI) assumption+
qed

end
